theory Spec2Isabelle
  imports Main "HOL-Library.Word" "HOL-Library.Monad_Syntax"
begin

unbundle bit_operations_syntax

section \<open>Machine types\<close>

type_synonym uint8_t = "8 word"
type_synonym uint16_t = "16 word"

section \<open>Mapper 0 (mapper.h, mapper.cpp)\<close>

record Mapper0 =
  prg_rom :: "uint8_t list"
  chr_rom :: "uint8_t list"

text \<open>\<^verbatim>\<open>Mapper0::Mapper0()\<close>: both vectors are default-constructed, hence empty.\<close>

definition Mapper0_default :: Mapper0 where
  "Mapper0_default = \<lparr>prg_rom = [], chr_rom = []\<rparr>"

text \<open>
  \<^verbatim>\<open>std::vector::operator[]\<close> is undefined behaviour for an index that is not below
  the size; the model returns \<open>None\<close> there.
\<close>

definition vector_at :: "uint8_t list \<Rightarrow> nat \<Rightarrow> uint8_t option" where
  "vector_at v i = (if i < length v then Some (v ! i) else None)"

text \<open>
  \<^verbatim>\<open>Mapper0::read\<close>. For an address in neither window the function flows off its end
  without a \<^verbatim>\<open>return\<close>, which is undefined behaviour: \<open>None\<close>.
\<close>

definition Mapper0_read :: "Mapper0 \<Rightarrow> uint16_t \<Rightarrow> uint8_t option" where
  "Mapper0_read m address =
     (if 0x8000 \<le> address \<and> address \<le> 0xFFFF
      then vector_at (prg_rom m) (unat (address AND 0x3FFF))
      else if 0x0000 \<le> address \<and> address \<le> 0x1FFF
      then vector_at (chr_rom m) (unat address)
      else None)"

definition Mapper0_write :: "Mapper0 \<Rightarrow> uint16_t \<Rightarrow> uint8_t \<Rightarrow> Mapper0" where
  "Mapper0_write m address data = m"

section \<open>Cartridge (cartridge.h, cartridge.cpp)\<close>

datatype Mirroring = HORIZONTAL | VERTICAL
datatype ConsoleType = FAMILY | VS_SYSTEM | PLAYCHOICE10 | EXTENDED
datatype TVSystem = NTSC | PAL

record Cartridge =
  mirroring :: Mirroring
  has_battery_ram :: bool
  has_trainer :: bool
  ignore_mirroring :: bool
  mapper :: Mapper0
  console_type :: ConsoleType
  prg_ram_banks :: uint8_t
  tv_system :: TVSystem
  is_dual_tv_system :: bool
  has_prg_ram :: bool
  has_bus_conflicts :: bool

definition Cartridge_read :: "Cartridge \<Rightarrow> uint16_t \<Rightarrow> uint8_t option" where
  "Cartridge_read c address = Mapper0_read (mapper c) address"

definition Cartridge_write :: "Cartridge \<Rightarrow> uint16_t \<Rightarrow> uint8_t \<Rightarrow> Cartridge" where
  "Cartridge_write c address data = c\<lparr>mapper := Mapper0_write (mapper c) address data\<rparr>"

section \<open>CPU memory bus (bus.h, bus.cpp)\<close>

text \<open>
  \<^verbatim>\<open>std::array<uint8_t, 2048> ram\<close> is a function on cell numbers; every access of the
  source masks the address with \<open>0x07FF\<close>, so only the cells below 2048 are ever used.
  \<^verbatim>\<open>std::shared_ptr<Cartridge> cartridge\<close> is \<open>None\<close> while it is null.
\<close>

record CPUMemoryBus =
  ram :: "nat \<Rightarrow> uint8_t"
  cartridge :: "Cartridge option"

text \<open>
  \<^verbatim>\<open>CPUMemoryBus::CPUMemoryBus() : cartridge() {}\<close>. The member \<^verbatim>\<open>ram\<close> has no
  initialiser in the class and none in the constructor, so it is default-initialised:
  its bytes are whatever the storage held. That prior content is the parameter.
\<close>

definition CPUMemoryBus_ctor :: "(nat \<Rightarrow> uint8_t) \<Rightarrow> CPUMemoryBus" where
  "CPUMemoryBus_ctor indeterminate = \<lparr>ram = indeterminate, cartridge = None\<rparr>"

definition connect_cartridge :: "CPUMemoryBus \<Rightarrow> Cartridge option \<Rightarrow> CPUMemoryBus" where
  "connect_cartridge b cartridge' = b\<lparr>cartridge := cartridge'\<rparr>"

text \<open>\<^verbatim>\<open>CPUMemoryBus::read\<close>; dereferencing a null cartridge pointer is \<open>None\<close>.\<close>

definition CPUMemoryBus_read :: "CPUMemoryBus \<Rightarrow> uint16_t \<Rightarrow> uint8_t option" where
  "CPUMemoryBus_read b address =
     (if 0x0000 \<le> address \<and> address \<le> 0x1FFF then Some (ram b (unat (address AND 0x07FF)))
      else if 0x2000 \<le> address \<and> address \<le> 0x3FFF then Some 0
      else if 0x4000 \<le> address \<and> address \<le> 0x4017 then Some 0
      else if 0x4018 \<le> address \<and> address \<le> 0x401F then Some 0
      else if 0x4020 \<le> address \<and> address \<le> 0xFFFF
      then (case cartridge b of None \<Rightarrow> None | Some c \<Rightarrow> Cartridge_read c address)
      else Some 0)"

text \<open>\<^verbatim>\<open>CPUMemoryBus::write\<close>, returning the bus after the write.\<close>

definition CPUMemoryBus_write :: "CPUMemoryBus \<Rightarrow> uint16_t \<Rightarrow> uint8_t \<Rightarrow> CPUMemoryBus option" where
  "CPUMemoryBus_write b address data =
     (if 0x0000 \<le> address \<and> address \<le> 0x1FFF
      then Some (b\<lparr>ram := (ram b)(unat (address AND 0x07FF) := data)\<rparr>)
      else if 0x2000 \<le> address \<and> address \<le> 0x3FFF then Some b
      else if address = 0x4014 then Some b
      else if 0x4000 \<le> address \<and> address \<le> 0x4017 then Some b
      else if 0x4018 \<le> address \<and> address \<le> 0x401F then Some b
      else if 0x4020 \<le> address \<and> address \<le> 0xFFFF
      then (case cartridge b of None \<Rightarrow> None
            | Some c \<Rightarrow> Some (b\<lparr>cartridge := Some (Cartridge_write c address data)\<rparr>))
      else Some b)"

section \<open>Cartridge construction from a ROM file (cartridge.cpp)\<close>

text \<open>
  What the constructor finds at \<^verbatim>\<open>rom_path\<close>: no file (\<^verbatim>\<open>std::filesystem::file_size\<close>
  throws), a file of some size that the stream cannot open, or a file with its bytes.
\<close>

datatype RomFile = NoSuchFile | CannotOpen nat | Contents "uint8_t list"

text \<open>
  What the constructor writes to \<^verbatim>\<open>std::cout\<close>. \<open>Invalid_header_title\<close> carries the
  bytes that \<^verbatim>\<open><< header.title\<close> prints after the fixed text.
\<close>

datatype Message =
  Error_open_file | Mailformed_rom nat | Invalid_header_title "uint8_t list"
  | Unsupported_mapper uint8_t | Empty_text

text \<open>
  How the constructor ends: it returns to its caller, leaving an object; or an exception
  leaves it; or \<^verbatim>\<open>std::terminate\<close> is called, which is what a \<^verbatim>\<open>throw;\<close> with no
  exception being handled does; or it has no defined result, because it read past the
  end of an array.
\<close>

datatype CtorOutcome =
  Returns Message Cartridge | Throws_filesystem_error | Terminates Message | Undefined_behaviour

definition HEADER_SIZE :: nat where "HEADER_SIZE = 16"

text \<open>
  \<^verbatim>\<open>v.resize(n); stream.read(v.data(), n)\<close>: the vector of \<open>n\<close> zero bytes, overwritten
  with the next bytes of the stream, as many as there are; and the rest of the stream.
  For \<^verbatim>\<open>chr_rom\<close> the source resizes twice, to \<^verbatim>\<open>prg_rom_size\<close> and then to
  \<^verbatim>\<open>chr_rom_size\<close>, which leaves the same \<^verbatim>\<open>chr_rom_size\<close> zero bytes.
\<close>

definition stream_read :: "nat \<Rightarrow> uint8_t list \<Rightarrow> uint8_t list \<times> uint8_t list" where
  "stream_read n stream = (take n stream @ replicate (n - length stream) 0, drop n stream)"

definition Mirroring_of :: "uint8_t \<Rightarrow> Mirroring" where
  "Mirroring_of v = (if v = 0 then HORIZONTAL else VERTICAL)"

definition ConsoleType_of :: "uint8_t \<Rightarrow> ConsoleType" where
  "ConsoleType_of v =
     (if v = 0 then FAMILY else if v = 1 then VS_SYSTEM else if v = 2 then PLAYCHOICE10
      else EXTENDED)"

definition TVSystem_of :: "uint8_t \<Rightarrow> TVSystem" where
  "TVSystem_of v = (if v = 0 then NTSC else PAL)"

text \<open>
  \<^verbatim>\<open>Cartridge::Cartridge(const std::string& rom_path)\<close>. The first argument is what the
  storage of the object held before: the constructor has no member initialisers, so on
  the paths that return early the scalar members keep that content, and \<^verbatim>\<open>mapper\<close> is
  the default-constructed \<^verbatim>\<open>Mapper0\<close>. The header is the first 16 bytes;
  \<^verbatim>\<open>strncmp(header.title, "NES\x1A", 4)\<close> is non-zero exactly when the first four
  bytes differ from the tag, which contains no zero byte. On that path
  \<^verbatim>\<open>std::cout << header.title\<close> prints \<^verbatim>\<open>title\<close> as a C string, the bytes up to its
  first zero byte; \<^verbatim>\<open>title\<close> is a \<^verbatim>\<open>char[4]\<close> with no terminator, so when none of
  its four bytes is zero the read runs past the end of the array, which is undefined
  behaviour.
\<close>

definition Cartridge_ctor :: "Cartridge \<Rightarrow> RomFile \<Rightarrow> CtorOutcome" where
  "Cartridge_ctor storage file =
     (case file of
        NoSuchFile \<Rightarrow> Throws_filesystem_error
      | CannotOpen file_size \<Rightarrow> Returns Error_open_file (storage\<lparr>mapper := Mapper0_default\<rparr>)
      | Contents bytes \<Rightarrow>
          (let this = storage\<lparr>mapper := Mapper0_default\<rparr>;
               file_size = length bytes
           in if file_size < HEADER_SIZE then Returns (Mailformed_rom file_size) this
              else
                let header = take HEADER_SIZE bytes;
                    stream1 = drop HEADER_SIZE bytes
                in if take 4 header \<noteq> [0x4E, 0x45, 0x53, 0x1A]
                   then (if 0 \<in> set (take 4 header)
                         then Returns
                                (Invalid_header_title (takeWhile (\<lambda>b. b \<noteq> 0) (take 4 header)))
                                this
                         else Undefined_behaviour)
                   else
                     let prg_rom_size = 16 * 1024 * unat (header ! 4);
                         chr_rom_size = 8 * 1024 * unat (header ! 5)
                     in if HEADER_SIZE + prg_rom_size + chr_rom_size \<noteq> file_size
                        then Returns (Mailformed_rom file_size) this
                        else
                          let flags6 = header ! 6;
                              flags7 = header ! 7;
                              flags8 = header ! 8;
                              flags9 = header ! 9;
                              flags10 = header ! 10;
                              mapper_number = drop_bit 4 flags6 OR (flags7 AND 0xF0);
                              tv_system_id = flags10 AND 3;
                              this1 = this
                                \<lparr>mirroring := Mirroring_of (flags6 AND 1),
                                 has_battery_ram := (drop_bit 1 flags6 AND 1 = 1),
                                 has_trainer := (drop_bit 2 flags6 AND 1 = 1),
                                 ignore_mirroring := (drop_bit 3 flags6 AND 1 = 1),
                                 console_type := ConsoleType_of (flags7 AND 3),
                                 prg_ram_banks := flags8,
                                 tv_system := TVSystem_of (flags9 AND 1),
                                 is_dual_tv_system := (tv_system_id = 1 \<or> tv_system_id = 3),
                                 has_prg_ram := (drop_bit 4 flags10 AND 1 = 1),
                                 has_bus_conflicts := (drop_bit 5 flags10 AND 1 = 1)\<rparr>;
                              (prg, stream2) = stream_read prg_rom_size stream1;
                              (chr, stream3) = stream_read chr_rom_size stream2
                          in if mapper_number \<noteq> 0
                             then Terminates (Unsupported_mapper mapper_number)
                             else Returns Empty_text
                                    (this1\<lparr>mapper := \<lparr>prg_rom = prg, chr_rom = chr\<rparr>\<rparr>)))"

section \<open>CPU (cpu.h, cpu.cpp)\<close>

subsection \<open>Flags, address modes, registers\<close>

text \<open>\<^verbatim>\<open>enum Flag : uint8_t\<close>; \<^verbatim>\<open>OVERFLOW_\<close> loses its underscore.\<close>

definition CARRY :: uint8_t where "CARRY = push_bit 0 1"
definition ZERO :: uint8_t where "ZERO = push_bit 1 1"
definition INTERRUPT :: uint8_t where "INTERRUPT = push_bit 2 1"
definition DECIMAL :: uint8_t where "DECIMAL = push_bit 3 1"
definition BREAK :: uint8_t where "BREAK = push_bit 4 1"
definition UNUSED :: uint8_t where "UNUSED = push_bit 5 1"
definition OVERFLOW :: uint8_t where "OVERFLOW = push_bit 6 1"
definition NEGATIVE :: uint8_t where "NEGATIVE = push_bit 7 1"

datatype AddressMode =
  NONE | ACCUMULATOR | IMPLIED | IMMEDIATE | ABSOLUTE | ZEROPAGE | ABSOLUTE_X | ABSOLUTE_Y
  | ZEROPAGE_X | ZEROPAGE_Y | INDIRECT | X_INDIRECT | INDIRECT_Y | RELATIVE

text \<open>
  The members of \<^verbatim>\<open>class CPU\<close>. The registers \<^verbatim>\<open>a, x, y, p, sp, pc\<close> carry the
  prefix \<open>cpu_\<close>. The two \<^verbatim>\<open>size_t\<close> counters are natural numbers: a step adds at
  most 9 to them, and their wrap-around at the width of \<^verbatim>\<open>size_t\<close> is not modelled.
  \<^verbatim>\<open>CPUMemoryBus& bus\<close> is the bus itself, passed along with the state.
\<close>

record CPU =
  nmi :: bool
  cpu_a :: uint8_t
  cpu_x :: uint8_t
  cpu_y :: uint8_t
  cpu_p :: uint8_t
  cpu_sp :: uint8_t
  cpu_pc :: uint16_t
  addr_mode :: AddressMode
  operand_addr :: uint16_t
  curr_cycle :: nat
  total_cycles :: nat
  page_crossed :: bool
  bus :: CPUMemoryBus

definition STACK_BASE_ADDRESS :: uint16_t where "STACK_BASE_ADDRESS = 0x0100"
definition NMI_VECTOR_ADDRESS :: uint16_t where "NMI_VECTOR_ADDRESS = 0xFFFA"
definition RESET_VECTOR_ADDRESS :: uint16_t where "RESET_VECTOR_ADDRESS = 0xFFFC"
definition IRQ_VECTOR_ADDRESS :: uint16_t where "IRQ_VECTOR_ADDRESS = 0xFFFE"

definition CPU_ctor :: "CPUMemoryBus \<Rightarrow> CPU" where
  "CPU_ctor b =
     \<lparr>nmi = False, cpu_a = 0, cpu_x = 0, cpu_y = 0, cpu_p = 0, cpu_sp = 0, cpu_pc = 0,
      addr_mode = NONE, operand_addr = 0, curr_cycle = 0, total_cycles = 0,
      page_crossed = False, bus = b\<rparr>"

text \<open>A 16-bit value from a low and a high byte: \<^verbatim>\<open>lo | hi << 8\<close>.\<close>

definition word_of_bytes :: "uint8_t \<Rightarrow> uint8_t \<Rightarrow> uint16_t" where
  "word_of_bytes lo hi = ucast lo OR push_bit 8 (ucast hi)"

definition reset :: "CPU \<Rightarrow> CPU option" where
  "reset s = do {
     let s1 = s\<lparr>cpu_a := 0x00, cpu_x := 0x00, cpu_y := 0x00, cpu_sp := 0xFD,
                cpu_p := INTERRUPT OR UNUSED\<rparr>;
     lo \<leftarrow> CPUMemoryBus_read (bus s1) RESET_VECTOR_ADDRESS;
     hi \<leftarrow> CPUMemoryBus_read (bus s1) (RESET_VECTOR_ADDRESS + 1);
     Some (s1\<lparr>cpu_pc := word_of_bytes lo hi, total_cycles := total_cycles s1 + 7\<rparr>)
   }"

subsection \<open>Stack, flags, operand access\<close>

text \<open>\<^verbatim>\<open>bus.write(STACK_BASE_ADDRESS | sp--, data)\<close>: the address uses the old \<^verbatim>\<open>sp\<close>.\<close>

definition push_stack :: "uint8_t \<Rightarrow> CPU \<Rightarrow> CPU option" where
  "push_stack data s = do {
     b \<leftarrow> CPUMemoryBus_write (bus s) (STACK_BASE_ADDRESS OR ucast (cpu_sp s)) data;
     Some (s\<lparr>cpu_sp := cpu_sp s - 1, bus := b\<rparr>)
   }"

text \<open>\<^verbatim>\<open>return bus.read(STACK_BASE_ADDRESS | ++sp)\<close>: the address uses the new \<^verbatim>\<open>sp\<close>.\<close>

definition pop_stack :: "CPU \<Rightarrow> (uint8_t \<times> CPU) option" where
  "pop_stack s = do {
     let s1 = s\<lparr>cpu_sp := cpu_sp s + 1\<rparr>;
     v \<leftarrow> CPUMemoryBus_read (bus s1) (STACK_BASE_ADDRESS OR ucast (cpu_sp s1));
     Some (v, s1)
   }"

definition set_flag :: "uint8_t \<Rightarrow> uint8_t \<Rightarrow> CPU \<Rightarrow> CPU" where
  "set_flag flag v s =
     (if v \<noteq> 0 then s\<lparr>cpu_p := cpu_p s OR flag\<rparr> else s\<lparr>cpu_p := cpu_p s AND NOT flag\<rparr>)"

definition set_nz_flags :: "uint8_t \<Rightarrow> CPU \<Rightarrow> CPU" where
  "set_nz_flags data s =
     set_flag NEGATIVE (drop_bit 7 data AND 1) (set_flag ZERO (if data = 0 then 1 else 0) s)"

definition is_page_crossed :: "uint16_t \<Rightarrow> uint16_t \<Rightarrow> bool" where
  "is_page_crossed address1 address2 = (address1 AND 0xFF00 \<noteq> address2 AND 0xFF00)"

definition read_wrapped_page :: "CPU \<Rightarrow> uint16_t \<Rightarrow> uint16_t option" where
  "read_wrapped_page s address = do {
     lo \<leftarrow> CPUMemoryBus_read (bus s) address;
     if is_page_crossed address (address + 1)
     then do { hi \<leftarrow> CPUMemoryBus_read (bus s) (address AND 0xFF00); Some (word_of_bytes lo hi) }
     else do { hi \<leftarrow> CPUMemoryBus_read (bus s) (address + 1); Some (word_of_bytes lo hi) }
   }"

subsection \<open>Addressing modes\<close>

text \<open>Each resolver returns the operand address and the state with \<^verbatim>\<open>pc\<close> advanced.\<close>

definition resolve_immediate :: "CPU \<Rightarrow> (uint16_t \<times> CPU) option" where
  "resolve_immediate s = Some (cpu_pc s, s\<lparr>cpu_pc := cpu_pc s + 1\<rparr>)"

definition resolve_zeropage :: "uint8_t \<Rightarrow> CPU \<Rightarrow> (uint16_t \<times> CPU) option" where
  "resolve_zeropage offset s = do {
     v \<leftarrow> CPUMemoryBus_read (bus s) (cpu_pc s);
     Some ((ucast v + ucast offset) AND 0xFF, s\<lparr>cpu_pc := cpu_pc s + 1\<rparr>)
   }"

definition resolve_absolute :: "uint8_t \<Rightarrow> CPU \<Rightarrow> (uint16_t \<times> CPU) option" where
  "resolve_absolute offset s = do {
     lo \<leftarrow> CPUMemoryBus_read (bus s) (cpu_pc s);
     hi \<leftarrow> CPUMemoryBus_read (bus s) (cpu_pc s + 1);
     let base_addr = word_of_bytes lo hi;
     let effective_addr = (base_addr + ucast offset) AND 0xFFFF;
     Some (effective_addr,
           s\<lparr>cpu_pc := cpu_pc s + 2, page_crossed := is_page_crossed base_addr effective_addr\<rparr>)
   }"

definition resolve_indirect :: "CPU \<Rightarrow> (uint16_t \<times> CPU) option" where
  "resolve_indirect s = do {
     lo \<leftarrow> CPUMemoryBus_read (bus s) (cpu_pc s);
     hi \<leftarrow> CPUMemoryBus_read (bus s) (cpu_pc s + 1);
     let addr = word_of_bytes lo hi;
     let s1 = s\<lparr>cpu_pc := cpu_pc s + 2\<rparr>;
     pointer \<leftarrow> read_wrapped_page s1 addr;
     Some (pointer, s1)
   }"

definition resolve_preindex_indirect :: "CPU \<Rightarrow> (uint16_t \<times> CPU) option" where
  "resolve_preindex_indirect s = do {
     v \<leftarrow> CPUMemoryBus_read (bus s) (cpu_pc s);
     let s1 = s\<lparr>cpu_pc := cpu_pc s + 1\<rparr>;
     let zeropage_addr = (ucast v + ucast (cpu_x s1)) AND 0xFF;
     pointer \<leftarrow> read_wrapped_page s1 zeropage_addr;
     Some (pointer, s1)
   }"

definition resolve_postindex_indirect :: "CPU \<Rightarrow> (uint16_t \<times> CPU) option" where
  "resolve_postindex_indirect s = do {
     v \<leftarrow> CPUMemoryBus_read (bus s) (cpu_pc s);
     let s1 = s\<lparr>cpu_pc := cpu_pc s + 1\<rparr>;
     base_addr \<leftarrow> read_wrapped_page s1 (ucast v);
     let effective_addr = (base_addr + ucast (cpu_y s1)) AND 0xFFFF;
     Some (effective_addr, s1\<lparr>page_crossed := is_page_crossed base_addr effective_addr\<rparr>)
   }"

definition resolve_relative :: "CPU \<Rightarrow> (uint16_t \<times> CPU) option" where
  "resolve_relative s = resolve_immediate s"

definition get_operand :: "CPU \<Rightarrow> uint8_t option" where
  "get_operand s =
     (if addr_mode s = ACCUMULATOR then Some (cpu_a s) else CPUMemoryBus_read (bus s) (operand_addr s))"

definition store :: "uint8_t \<Rightarrow> CPU \<Rightarrow> CPU option" where
  "store data s =
     (if addr_mode s = ACCUMULATOR then Some (s\<lparr>cpu_a := data\<rparr>)
      else do { b \<leftarrow> CPUMemoryBus_write (bus s) (operand_addr s) data; Some (s\<lparr>bus := b\<rparr>) })"

subsection \<open>Instruction handlers\<close>

text \<open>
  Every handler takes the state and returns the state after it, or \<open>None\<close> where a bus
  access in it is undefined. Where two \<^verbatim>\<open>pop_stack()\<close> calls are operands of one
  \<open>|\<close>, they are taken left to right.
\<close>

definition brk :: "CPU \<Rightarrow> CPU option" where
  "brk s = do {
     let return_addr = cpu_pc s + 1;
     let s0 = s\<lparr>cpu_pc := return_addr\<rparr>;
     s1 \<leftarrow> push_stack (ucast (drop_bit 8 return_addr)) s0;
     s2 \<leftarrow> push_stack (ucast (return_addr AND 0xFF)) s1;
     s3 \<leftarrow> push_stack (cpu_p s2 OR BREAK) s2;
     let s4 = s3\<lparr>cpu_p := cpu_p s3 OR INTERRUPT\<rparr>;
     lo \<leftarrow> CPUMemoryBus_read (bus s4) IRQ_VECTOR_ADDRESS;
     hi \<leftarrow> CPUMemoryBus_read (bus s4) (IRQ_VECTOR_ADDRESS + 1);
     Some (s4\<lparr>cpu_pc := word_of_bytes lo hi\<rparr>)
   }"

definition ora :: "CPU \<Rightarrow> CPU option" where
  "ora s = do {
     v \<leftarrow> get_operand s;
     let s1 = s\<lparr>cpu_a := cpu_a s OR v\<rparr>;
     Some (set_nz_flags (cpu_a s1) s1)
   }"

definition and' :: "CPU \<Rightarrow> CPU option" where
  "and' s = do {
     v \<leftarrow> get_operand s;
     let s1 = s\<lparr>cpu_a := cpu_a s AND v\<rparr>;
     Some (set_nz_flags (cpu_a s1) s1)
   }"

definition eor :: "CPU \<Rightarrow> CPU option" where
  "eor s = do {
     v \<leftarrow> get_operand s;
     let s1 = s\<lparr>cpu_a := cpu_a s XOR v\<rparr>;
     Some (set_nz_flags (cpu_a s1) s1)
   }"

definition asl :: "CPU \<Rightarrow> CPU option" where
  "asl s = do {
     operand \<leftarrow> get_operand s;
     let result = push_bit 1 operand AND 0xFF;
     store result (set_nz_flags result (set_flag CARRY (drop_bit 7 operand) s))
   }"

definition lsr :: "CPU \<Rightarrow> CPU option" where
  "lsr s = do {
     operand \<leftarrow> get_operand s;
     let result = drop_bit 1 operand;
     store result (set_nz_flags result (set_flag CARRY (operand AND 1) s))
   }"

definition rol :: "CPU \<Rightarrow> CPU option" where
  "rol s = do {
     operand \<leftarrow> get_operand s;
     let result = (push_bit 1 operand OR (cpu_p s AND CARRY)) AND 0xFF;
     store result (set_nz_flags result (set_flag CARRY (drop_bit 7 operand) s))
   }"

definition ror :: "CPU \<Rightarrow> CPU option" where
  "ror s = do {
     operand \<leftarrow> get_operand s;
     let result = (drop_bit 1 operand OR push_bit 7 (cpu_p s AND CARRY)) AND 0xFF;
     store result (set_nz_flags result (set_flag CARRY (operand AND 1) s))
   }"

definition bit' :: "CPU \<Rightarrow> CPU option" where
  "bit' s = do {
     operand \<leftarrow> get_operand s;
     let s1 = set_flag ZERO (if cpu_a s AND operand = 0 then 1 else 0) s;
     let s2 = set_flag OVERFLOW (drop_bit 6 operand AND 1) s1;
     Some (set_flag NEGATIVE (drop_bit 7 operand) s2)
   }"

definition php :: "CPU \<Rightarrow> CPU option" where
  "php s = push_stack (cpu_p s OR BREAK) s"

definition plp :: "CPU \<Rightarrow> CPU option" where
  "plp s = do {
     (v, s1) \<leftarrow> pop_stack s;
     Some (s1\<lparr>cpu_p := (v AND NOT BREAK) OR UNUSED\<rparr>)
   }"

definition pha :: "CPU \<Rightarrow> CPU option" where
  "pha s = push_stack (cpu_a s) s"

definition pla :: "CPU \<Rightarrow> CPU option" where
  "pla s = do {
     (v, s1) \<leftarrow> pop_stack s;
     let s2 = s1\<lparr>cpu_a := v\<rparr>;
     Some (set_nz_flags (cpu_a s2) s2)
   }"

definition clc :: "CPU \<Rightarrow> CPU option" where
  "clc s = Some (s\<lparr>cpu_p := cpu_p s AND NOT CARRY\<rparr>)"

definition sec :: "CPU \<Rightarrow> CPU option" where
  "sec s = Some (s\<lparr>cpu_p := cpu_p s OR CARRY\<rparr>)"

definition cli :: "CPU \<Rightarrow> CPU option" where
  "cli s = Some (s\<lparr>cpu_p := cpu_p s AND NOT INTERRUPT\<rparr>)"

definition sei :: "CPU \<Rightarrow> CPU option" where
  "sei s = Some (s\<lparr>cpu_p := cpu_p s OR INTERRUPT\<rparr>)"

definition clv :: "CPU \<Rightarrow> CPU option" where
  "clv s = Some (s\<lparr>cpu_p := cpu_p s AND NOT OVERFLOW\<rparr>)"

definition cld :: "CPU \<Rightarrow> CPU option" where
  "cld s = Some (s\<lparr>cpu_p := cpu_p s AND NOT DECIMAL\<rparr>)"

definition sed :: "CPU \<Rightarrow> CPU option" where
  "sed s = Some (s\<lparr>cpu_p := cpu_p s OR DECIMAL\<rparr>)"

definition rti :: "CPU \<Rightarrow> CPU option" where
  "rti s = do {
     (v, s1) \<leftarrow> pop_stack s;
     let s2 = s1\<lparr>cpu_p := v OR UNUSED\<rparr>;
     (lo, s3) \<leftarrow> pop_stack s2;
     (hi, s4) \<leftarrow> pop_stack s3;
     Some (s4\<lparr>cpu_pc := word_of_bytes lo hi\<rparr>)
   }"

definition rts :: "CPU \<Rightarrow> CPU option" where
  "rts s = do {
     (lo, s1) \<leftarrow> pop_stack s;
     (hi, s2) \<leftarrow> pop_stack s1;
     Some (s2\<lparr>cpu_pc := word_of_bytes lo hi + 1\<rparr>)
   }"

definition jmp :: "CPU \<Rightarrow> CPU option" where
  "jmp s = Some (s\<lparr>cpu_pc := operand_addr s\<rparr>)"

text \<open>
  \<^verbatim>\<open>adc_\<close>: \<^verbatim>\<open>result\<close> is a \<^verbatim>\<open>uint16_t\<close>; the flags are set while \<^verbatim>\<open>a\<close> still
  holds the old accumulator.
\<close>

definition adc' :: "uint8_t \<Rightarrow> CPU \<Rightarrow> CPU" where
  "adc' operand s =
     (let result = (ucast (cpu_a s) + ucast operand + ucast (cpu_p s AND CARRY) :: uint16_t);
          s1 = set_flag CARRY (if result > 0xFF then 1 else 0) s;
          s2 = set_flag OVERFLOW
                 (if drop_bit 7 ((ucast (cpu_a s1) XOR result) AND (ucast operand XOR result) AND 0x80) \<noteq> 0
                  then 1 else 0) s1;
          result' = result AND 0xFF;
          s3 = set_nz_flags (ucast result') s2
      in s3\<lparr>cpu_a := ucast result'\<rparr>)"

definition adc :: "CPU \<Rightarrow> CPU option" where
  "adc s = do { operand \<leftarrow> get_operand s; Some (adc' operand s) }"

definition sbc :: "CPU \<Rightarrow> CPU option" where
  "sbc s = do { operand \<leftarrow> get_operand s; Some (adc' (operand XOR 0xFF) s) }"

definition sta :: "CPU \<Rightarrow> CPU option" where
  "sta s = store (cpu_a s) s"

definition stx :: "CPU \<Rightarrow> CPU option" where
  "stx s = store (cpu_x s) s"

definition sty :: "CPU \<Rightarrow> CPU option" where
  "sty s = store (cpu_y s) s"

definition inx :: "CPU \<Rightarrow> CPU option" where
  "inx s = (let s1 = s\<lparr>cpu_x := (cpu_x s + 1) AND 0xFF\<rparr> in Some (set_nz_flags (cpu_x s1) s1))"

definition dex :: "CPU \<Rightarrow> CPU option" where
  "dex s = (let s1 = s\<lparr>cpu_x := (cpu_x s - 1) AND 0xFF\<rparr> in Some (set_nz_flags (cpu_x s1) s1))"

definition iny :: "CPU \<Rightarrow> CPU option" where
  "iny s = (let s1 = s\<lparr>cpu_y := (cpu_y s + 1) AND 0xFF\<rparr> in Some (set_nz_flags (cpu_y s1) s1))"

definition dey :: "CPU \<Rightarrow> CPU option" where
  "dey s = (let s1 = s\<lparr>cpu_y := (cpu_y s - 1) AND 0xFF\<rparr> in Some (set_nz_flags (cpu_y s1) s1))"

definition inc :: "CPU \<Rightarrow> CPU option" where
  "inc s = do {
     operand \<leftarrow> get_operand s;
     let result = (operand + 1) AND 0xFF;
     store result (set_nz_flags result s)
   }"

definition dec :: "CPU \<Rightarrow> CPU option" where
  "dec s = do {
     operand \<leftarrow> get_operand s;
     let result = (operand - 1) AND 0xFF;
     store result (set_nz_flags result s)
   }"

definition txa :: "CPU \<Rightarrow> CPU option" where
  "txa s = (let s1 = s\<lparr>cpu_a := cpu_x s\<rparr> in Some (set_nz_flags (cpu_a s1) s1))"

definition tya :: "CPU \<Rightarrow> CPU option" where
  "tya s = (let s1 = s\<lparr>cpu_a := cpu_y s\<rparr> in Some (set_nz_flags (cpu_a s1) s1))"

definition txs :: "CPU \<Rightarrow> CPU option" where
  "txs s = Some (s\<lparr>cpu_sp := cpu_x s\<rparr>)"

definition tay :: "CPU \<Rightarrow> CPU option" where
  "tay s = (let s1 = s\<lparr>cpu_y := cpu_a s\<rparr> in Some (set_nz_flags (cpu_y s1) s1))"

definition tax :: "CPU \<Rightarrow> CPU option" where
  "tax s = (let s1 = s\<lparr>cpu_x := cpu_a s\<rparr> in Some (set_nz_flags (cpu_x s1) s1))"

definition tsx :: "CPU \<Rightarrow> CPU option" where
  "tsx s = (let s1 = s\<lparr>cpu_x := cpu_sp s\<rparr> in Some (set_nz_flags (cpu_x s1) s1))"

definition lda :: "CPU \<Rightarrow> CPU option" where
  "lda s = do {
     v \<leftarrow> get_operand s;
     let s1 = s\<lparr>cpu_a := v\<rparr>;
     Some (set_nz_flags (cpu_a s1) s1)
   }"

definition ldx :: "CPU \<Rightarrow> CPU option" where
  "ldx s = do {
     v \<leftarrow> get_operand s;
     let s1 = s\<lparr>cpu_x := v\<rparr>;
     Some (set_nz_flags (cpu_x s1) s1)
   }"

definition ldy :: "CPU \<Rightarrow> CPU option" where
  "ldy s = do {
     v \<leftarrow> get_operand s;
     let s1 = s\<lparr>cpu_y := v\<rparr>;
     Some (set_nz_flags (cpu_y s1) s1)
   }"

definition cpx :: "CPU \<Rightarrow> CPU option" where
  "cpx s = do {
     operand \<leftarrow> get_operand s;
     let result = cpu_x s - operand;
     Some (set_nz_flags result (set_flag CARRY (if cpu_x s \<ge> operand then 1 else 0) s))
   }"

definition cpy :: "CPU \<Rightarrow> CPU option" where
  "cpy s = do {
     operand \<leftarrow> get_operand s;
     let result = cpu_y s - operand;
     Some (set_nz_flags result (set_flag CARRY (if cpu_y s \<ge> operand then 1 else 0) s))
   }"

definition cmp :: "CPU \<Rightarrow> CPU option" where
  "cmp s = do {
     operand \<leftarrow> get_operand s;
     let result = cpu_a s - operand;
     Some (set_nz_flags result (set_flag CARRY (if cpu_a s \<ge> operand then 1 else 0) s))
   }"

text \<open>
  \<^verbatim>\<open>branch\<close>: the \<^verbatim>\<open>int8_t offset\<close> is added to \<^verbatim>\<open>pc\<close> and the sum converted to
  \<^verbatim>\<open>uint16_t\<close>, which is the 16-bit sum with the offset sign-extended.
\<close>

definition branch :: "bool \<Rightarrow> CPU \<Rightarrow> CPU option" where
  "branch condition s =
     (if \<not> condition then Some s
      else do {
        let s1 = s\<lparr>curr_cycle := curr_cycle s + 1\<rparr>;
        operand \<leftarrow> get_operand s1;
        let offset = (if operand AND 0x80 = 0x80 then - (0x100 - ucast operand) else ucast operand :: uint16_t);
        let addr = cpu_pc s1 + offset;
        Some (s1\<lparr>page_crossed := is_page_crossed (cpu_pc s1) addr, cpu_pc := addr\<rparr>)
      })"

definition bpl :: "CPU \<Rightarrow> CPU option" where
  "bpl s = branch (cpu_p s AND NEGATIVE = 0) s"

definition bmi :: "CPU \<Rightarrow> CPU option" where
  "bmi s = branch (cpu_p s AND NEGATIVE \<noteq> 0) s"

definition bvc :: "CPU \<Rightarrow> CPU option" where
  "bvc s = branch (cpu_p s AND OVERFLOW = 0) s"

definition bvs :: "CPU \<Rightarrow> CPU option" where
  "bvs s = branch (cpu_p s AND OVERFLOW \<noteq> 0) s"

definition bcc :: "CPU \<Rightarrow> CPU option" where
  "bcc s = branch (cpu_p s AND CARRY = 0) s"

definition bcs :: "CPU \<Rightarrow> CPU option" where
  "bcs s = branch (cpu_p s AND CARRY \<noteq> 0) s"

definition bne :: "CPU \<Rightarrow> CPU option" where
  "bne s = branch (cpu_p s AND ZERO = 0) s"

definition beq :: "CPU \<Rightarrow> CPU option" where
  "beq s = branch (cpu_p s AND ZERO \<noteq> 0) s"

definition jsr :: "CPU \<Rightarrow> CPU option" where
  "jsr s = do {
     let return_addr = cpu_pc s - 1;
     s1 \<leftarrow> push_stack (ucast (drop_bit 8 return_addr)) s;
     s2 \<leftarrow> push_stack (ucast (return_addr AND 0xFF)) s1;
     Some (s2\<lparr>cpu_pc := operand_addr s2\<rparr>)
   }"

definition nop :: "CPU \<Rightarrow> CPU option" where
  "nop s = Some s"

subsection \<open>The decode table\<close>

text \<open>
  A pointer to a member function, \<^verbatim>\<open>&CPU::brk\<close> and so on, is a value of \<open>Func\<close>;
  \<open>call\<close> is \<^verbatim>\<open>(this->*func)()\<close>. The null pointer is \<open>None\<close> in the table entry.
\<close>

datatype Func =
  CPU_brk | CPU_ora | CPU_asl | CPU_php | CPU_bpl | CPU_clc | CPU_jsr | CPU_and
  | CPU_bit | CPU_rol | CPU_plp | CPU_bmi | CPU_sec | CPU_rti | CPU_eor | CPU_lsr
  | CPU_pha | CPU_jmp | CPU_bvc | CPU_cli | CPU_rts | CPU_adc | CPU_ror | CPU_pla
  | CPU_bvs | CPU_sei | CPU_sta | CPU_sty | CPU_stx | CPU_dey | CPU_txa | CPU_bcc
  | CPU_tya | CPU_txs | CPU_ldy | CPU_lda | CPU_ldx | CPU_tay | CPU_tax | CPU_bcs
  | CPU_clv | CPU_tsx | CPU_cpy | CPU_cmp | CPU_dec | CPU_iny | CPU_dex | CPU_bne
  | CPU_cld | CPU_cpx | CPU_sbc | CPU_inc | CPU_inx | CPU_nop | CPU_beq | CPU_sed

fun call :: "Func \<Rightarrow> CPU \<Rightarrow> CPU option" where
  "call CPU_brk s = brk s"
| "call CPU_ora s = ora s"
| "call CPU_asl s = asl s"
| "call CPU_php s = php s"
| "call CPU_bpl s = bpl s"
| "call CPU_clc s = clc s"
| "call CPU_jsr s = jsr s"
| "call CPU_and s = and' s"
| "call CPU_bit s = bit' s"
| "call CPU_rol s = rol s"
| "call CPU_plp s = plp s"
| "call CPU_bmi s = bmi s"
| "call CPU_sec s = sec s"
| "call CPU_rti s = rti s"
| "call CPU_eor s = eor s"
| "call CPU_lsr s = lsr s"
| "call CPU_pha s = pha s"
| "call CPU_jmp s = jmp s"
| "call CPU_bvc s = bvc s"
| "call CPU_cli s = cli s"
| "call CPU_rts s = rts s"
| "call CPU_adc s = adc s"
| "call CPU_ror s = ror s"
| "call CPU_pla s = pla s"
| "call CPU_bvs s = bvs s"
| "call CPU_sei s = sei s"
| "call CPU_sta s = sta s"
| "call CPU_sty s = sty s"
| "call CPU_stx s = stx s"
| "call CPU_dey s = dey s"
| "call CPU_txa s = txa s"
| "call CPU_bcc s = bcc s"
| "call CPU_tya s = tya s"
| "call CPU_txs s = txs s"
| "call CPU_ldy s = ldy s"
| "call CPU_lda s = lda s"
| "call CPU_ldx s = ldx s"
| "call CPU_tay s = tay s"
| "call CPU_tax s = tax s"
| "call CPU_bcs s = bcs s"
| "call CPU_clv s = clv s"
| "call CPU_tsx s = tsx s"
| "call CPU_cpy s = cpy s"
| "call CPU_cmp s = cmp s"
| "call CPU_dec s = dec s"
| "call CPU_iny s = iny s"
| "call CPU_dex s = dex s"
| "call CPU_bne s = bne s"
| "call CPU_cld s = cld s"
| "call CPU_cpx s = cpx s"
| "call CPU_sbc s = sbc s"
| "call CPU_inc s = inc s"
| "call CPU_inx s = inx s"
| "call CPU_nop s = nop s"
| "call CPU_beq s = beq s"
| "call CPU_sed s = sed s"

record Instruction =
  ins_mnemonic :: string
  ins_addr_mode :: AddressMode
  ins_cycles :: uint8_t
  ins_check_page_cross :: bool
  ins_func :: "Func option"

text \<open>\<^verbatim>\<open>Instruction::Instruction()\<close>, the entry written \<^verbatim>\<open>{}\<close> in the table.\<close>

definition Instruction_default :: Instruction where
  "Instruction_default =
     \<lparr>ins_mnemonic = [], ins_addr_mode = NONE, ins_cycles = 0, ins_check_page_cross = False,
      ins_func = None\<rparr>"

definition Instruction_ctor ::
    "string \<Rightarrow> AddressMode \<Rightarrow> uint8_t \<Rightarrow> bool \<Rightarrow> Func \<Rightarrow> Instruction" where
  "Instruction_ctor m am c cpc f =
     \<lparr>ins_mnemonic = m, ins_addr_mode = am, ins_cycles = c, ins_check_page_cross = cpc,
      ins_func = Some f\<rparr>"

text \<open>
  \<^verbatim>\<open>const CPU::Instruction CPU::INSTRUCTIONS[0xFF]\<close>: the initialisers of the source, in
  order, one per line.
\<close>

definition INSTRUCTIONS :: "Instruction list" where
  "INSTRUCTIONS = [
    Instruction_ctor ''BRK'' IMPLIED 7 False CPU_brk,
    Instruction_ctor ''ORA'' X_INDIRECT 6 False CPU_ora,
    Instruction_default,
    Instruction_default,
    Instruction_default,
    Instruction_ctor ''ORA'' ZEROPAGE 3 False CPU_ora,
    Instruction_ctor ''ASL'' ZEROPAGE 5 False CPU_asl,
    Instruction_default,
    Instruction_ctor ''PHP'' IMPLIED 3 False CPU_php,
    Instruction_ctor ''ORA'' IMMEDIATE 2 False CPU_ora,
    Instruction_ctor ''ASL'' ACCUMULATOR 2 False CPU_asl,
    Instruction_default,
    Instruction_default,
    Instruction_ctor ''ORA'' ABSOLUTE 4 False CPU_ora,
    Instruction_ctor ''ASL'' ABSOLUTE 6 False CPU_asl,
    Instruction_default,
    Instruction_ctor ''BPL'' RELATIVE 2 False CPU_bpl,
    Instruction_ctor ''ORA'' INDIRECT_Y 5 True CPU_ora,
    Instruction_default,
    Instruction_default,
    Instruction_default,
    Instruction_ctor ''ORA'' ZEROPAGE_X 4 False CPU_ora,
    Instruction_ctor ''ASL'' ZEROPAGE_X 6 False CPU_asl,
    Instruction_default,
    Instruction_ctor ''CLC'' IMPLIED 2 False CPU_clc,
    Instruction_ctor ''ORA'' ABSOLUTE_Y 4 True CPU_ora,
    Instruction_default,
    Instruction_default,
    Instruction_default,
    Instruction_ctor ''ORA'' ABSOLUTE_X 4 True CPU_ora,
    Instruction_ctor ''ASL'' ABSOLUTE_X 7 False CPU_asl,
    Instruction_default,
    Instruction_ctor ''JSR'' ABSOLUTE 6 False CPU_jsr,
    Instruction_ctor ''AND'' X_INDIRECT 6 False CPU_and,
    Instruction_default,
    Instruction_default,
    Instruction_ctor ''BIT'' ZEROPAGE 3 False CPU_bit,
    Instruction_ctor ''AND'' ZEROPAGE 3 False CPU_and,
    Instruction_ctor ''ROL'' ZEROPAGE 5 False CPU_rol,
    Instruction_default,
    Instruction_ctor ''PLP'' IMPLIED 4 False CPU_plp,
    Instruction_ctor ''AND'' IMMEDIATE 2 False CPU_and,
    Instruction_ctor ''ROL'' ACCUMULATOR 2 False CPU_rol,
    Instruction_default,
    Instruction_ctor ''BIT'' ABSOLUTE 4 False CPU_bit,
    Instruction_ctor ''AND'' ABSOLUTE 4 False CPU_and,
    Instruction_ctor ''ROL'' ABSOLUTE 6 False CPU_rol,
    Instruction_default,
    Instruction_ctor ''BMI'' RELATIVE 2 False CPU_bmi,
    Instruction_ctor ''AND'' INDIRECT_Y 5 True CPU_and,
    Instruction_default,
    Instruction_default,
    Instruction_default,
    Instruction_ctor ''AND'' ZEROPAGE_X 4 False CPU_and,
    Instruction_ctor ''ROL'' ZEROPAGE_X 6 False CPU_rol,
    Instruction_default,
    Instruction_ctor ''SEC'' IMPLIED 2 False CPU_sec,
    Instruction_ctor ''AND'' ABSOLUTE_Y 4 True CPU_and,
    Instruction_default,
    Instruction_default,
    Instruction_default,
    Instruction_ctor ''AND'' ABSOLUTE_X 4 True CPU_and,
    Instruction_ctor ''ROL'' ABSOLUTE_X 7 False CPU_rol,
    Instruction_default,
    Instruction_ctor ''RTI'' IMPLIED 6 False CPU_rti,
    Instruction_ctor ''EOR'' X_INDIRECT 6 False CPU_eor,
    Instruction_default,
    Instruction_default,
    Instruction_default,
    Instruction_ctor ''EOR'' ZEROPAGE 3 False CPU_eor,
    Instruction_ctor ''LSR'' ZEROPAGE 5 False CPU_lsr,
    Instruction_default,
    Instruction_ctor ''PHA'' IMPLIED 3 False CPU_pha,
    Instruction_ctor ''EOR'' IMMEDIATE 2 False CPU_eor,
    Instruction_ctor ''LSR'' ACCUMULATOR 2 False CPU_lsr,
    Instruction_default,
    Instruction_ctor ''JMP'' ABSOLUTE 3 False CPU_jmp,
    Instruction_ctor ''EOR'' ABSOLUTE 4 False CPU_eor,
    Instruction_ctor ''LSR'' ABSOLUTE 6 False CPU_lsr,
    Instruction_default,
    Instruction_ctor ''BVC'' RELATIVE 2 False CPU_bvc,
    Instruction_ctor ''EOR'' INDIRECT_Y 5 True CPU_eor,
    Instruction_default,
    Instruction_default,
    Instruction_default,
    Instruction_ctor ''EOR'' ZEROPAGE_X 4 False CPU_eor,
    Instruction_ctor ''LSR'' ZEROPAGE_X 6 False CPU_lsr,
    Instruction_default,
    Instruction_ctor ''CLI'' IMPLIED 2 False CPU_cli,
    Instruction_ctor ''EOR'' ABSOLUTE_Y 4 True CPU_eor,
    Instruction_default,
    Instruction_default,
    Instruction_default,
    Instruction_ctor ''EOR'' ABSOLUTE_X 4 True CPU_eor,
    Instruction_ctor ''LSR'' ABSOLUTE_X 7 False CPU_lsr,
    Instruction_default,
    Instruction_ctor ''RTS'' IMPLIED 6 False CPU_rts,
    Instruction_ctor ''ADC'' X_INDIRECT 6 False CPU_adc,
    Instruction_default,
    Instruction_default,
    Instruction_default,
    Instruction_ctor ''ADC'' ZEROPAGE 3 False CPU_adc,
    Instruction_ctor ''ROR'' ZEROPAGE 5 False CPU_ror,
    Instruction_default,
    Instruction_ctor ''PLA'' IMPLIED 4 False CPU_pla,
    Instruction_ctor ''ADC'' IMMEDIATE 2 False CPU_adc,
    Instruction_ctor ''ROR'' ACCUMULATOR 2 False CPU_ror,
    Instruction_default,
    Instruction_ctor ''JMP'' INDIRECT 5 False CPU_jmp,
    Instruction_ctor ''ADC'' ABSOLUTE 4 False CPU_adc,
    Instruction_ctor ''ROR'' ABSOLUTE 6 False CPU_ror,
    Instruction_default,
    Instruction_ctor ''BVS'' RELATIVE 2 False CPU_bvs,
    Instruction_ctor ''ADC'' INDIRECT_Y 5 True CPU_adc,
    Instruction_default,
    Instruction_default,
    Instruction_default,
    Instruction_ctor ''ADC'' ZEROPAGE_X 4 False CPU_adc,
    Instruction_ctor ''ROR'' ZEROPAGE_X 6 False CPU_ror,
    Instruction_default,
    Instruction_ctor ''SEI'' IMPLIED 2 False CPU_sei,
    Instruction_ctor ''ADC'' ABSOLUTE_Y 4 True CPU_adc,
    Instruction_default,
    Instruction_default,
    Instruction_default,
    Instruction_ctor ''ADC'' ABSOLUTE_X 4 True CPU_adc,
    Instruction_ctor ''ROR'' ABSOLUTE_X 7 False CPU_ror,
    Instruction_default,
    Instruction_default,
    Instruction_ctor ''STA'' X_INDIRECT 6 False CPU_sta,
    Instruction_default,
    Instruction_default,
    Instruction_ctor ''STY'' ZEROPAGE 3 False CPU_sty,
    Instruction_ctor ''STA'' ZEROPAGE 3 False CPU_sta,
    Instruction_ctor ''STX'' ZEROPAGE 3 False CPU_stx,
    Instruction_default,
    Instruction_ctor ''DEY'' IMPLIED 2 False CPU_dey,
    Instruction_default,
    Instruction_ctor ''TXA'' IMPLIED 2 False CPU_txa,
    Instruction_default,
    Instruction_ctor ''STY'' ABSOLUTE 4 False CPU_sty,
    Instruction_ctor ''STA'' ABSOLUTE 4 False CPU_sta,
    Instruction_ctor ''STX'' ABSOLUTE 4 False CPU_stx,
    Instruction_default,
    Instruction_ctor ''BCC'' RELATIVE 2 False CPU_bcc,
    Instruction_ctor ''STA'' INDIRECT_Y 6 False CPU_sta,
    Instruction_default,
    Instruction_default,
    Instruction_ctor ''STY'' ZEROPAGE_X 4 False CPU_sty,
    Instruction_ctor ''STA'' ZEROPAGE_X 4 False CPU_sta,
    Instruction_ctor ''STX'' ZEROPAGE_Y 4 False CPU_stx,
    Instruction_default,
    Instruction_ctor ''TYA'' IMPLIED 2 False CPU_tya,
    Instruction_ctor ''STA'' ABSOLUTE_Y 5 False CPU_sta,
    Instruction_ctor ''TXS'' IMPLIED 2 False CPU_txs,
    Instruction_default,
    Instruction_default,
    Instruction_ctor ''STA'' ABSOLUTE_X 5 False CPU_sta,
    Instruction_default,
    Instruction_default,
    Instruction_ctor ''LDY'' IMMEDIATE 2 False CPU_ldy,
    Instruction_ctor ''LDA'' X_INDIRECT 6 False CPU_lda,
    Instruction_ctor ''LDX'' IMMEDIATE 2 False CPU_ldx,
    Instruction_default,
    Instruction_ctor ''LDY'' ZEROPAGE 3 False CPU_ldy,
    Instruction_ctor ''LDA'' ZEROPAGE 3 False CPU_lda,
    Instruction_ctor ''LDX'' ZEROPAGE 3 False CPU_ldx,
    Instruction_default,
    Instruction_ctor ''TAY'' IMPLIED 2 False CPU_tay,
    Instruction_ctor ''LDA'' IMMEDIATE 2 False CPU_lda,
    Instruction_ctor ''TAX'' IMPLIED 2 False CPU_tax,
    Instruction_default,
    Instruction_ctor ''LDY'' ABSOLUTE 4 False CPU_ldy,
    Instruction_ctor ''LDA'' ABSOLUTE 4 False CPU_lda,
    Instruction_ctor ''LDX'' ABSOLUTE 4 False CPU_ldx,
    Instruction_default,
    Instruction_ctor ''BCS'' RELATIVE 2 False CPU_bcs,
    Instruction_ctor ''LDA'' INDIRECT_Y 5 True CPU_lda,
    Instruction_default,
    Instruction_default,
    Instruction_ctor ''LDY'' ZEROPAGE_X 4 False CPU_ldy,
    Instruction_ctor ''LDA'' ZEROPAGE_X 4 False CPU_lda,
    Instruction_ctor ''LDX'' ZEROPAGE_Y 4 False CPU_ldx,
    Instruction_default,
    Instruction_ctor ''CLV'' IMPLIED 2 False CPU_clv,
    Instruction_ctor ''LDA'' ABSOLUTE_Y 4 True CPU_lda,
    Instruction_ctor ''TSX'' IMPLIED 2 False CPU_tsx,
    Instruction_default,
    Instruction_ctor ''LDY'' ABSOLUTE_X 4 True CPU_ldy,
    Instruction_ctor ''LDA'' ABSOLUTE_X 4 True CPU_lda,
    Instruction_ctor ''LDX'' ABSOLUTE_Y 4 True CPU_ldx,
    Instruction_default,
    Instruction_ctor ''CPY'' IMMEDIATE 2 False CPU_cpy,
    Instruction_ctor ''CMP'' X_INDIRECT 6 False CPU_cmp,
    Instruction_default,
    Instruction_default,
    Instruction_ctor ''CPY'' ZEROPAGE 3 False CPU_cpy,
    Instruction_ctor ''CMP'' ZEROPAGE 3 False CPU_cmp,
    Instruction_ctor ''DEC'' ZEROPAGE 5 False CPU_dec,
    Instruction_default,
    Instruction_ctor ''INY'' IMPLIED 2 False CPU_iny,
    Instruction_ctor ''CMP'' IMMEDIATE 2 False CPU_cmp,
    Instruction_ctor ''DEX'' IMPLIED 2 False CPU_dex,
    Instruction_default,
    Instruction_ctor ''CPY'' ABSOLUTE 4 False CPU_cpy,
    Instruction_ctor ''CMP'' ABSOLUTE 4 False CPU_cmp,
    Instruction_ctor ''DEC'' ABSOLUTE 6 False CPU_dec,
    Instruction_default,
    Instruction_ctor ''BNE'' RELATIVE 2 False CPU_bne,
    Instruction_ctor ''CMP'' INDIRECT_Y 5 True CPU_cmp,
    Instruction_default,
    Instruction_default,
    Instruction_default,
    Instruction_ctor ''CMP'' ZEROPAGE_X 4 False CPU_cmp,
    Instruction_ctor ''DEC'' ZEROPAGE_X 6 False CPU_dec,
    Instruction_default,
    Instruction_ctor ''CLD'' IMPLIED 2 False CPU_cld,
    Instruction_ctor ''CMP'' ABSOLUTE_Y 4 True CPU_cmp,
    Instruction_default,
    Instruction_default,
    Instruction_default,
    Instruction_ctor ''CMP'' ABSOLUTE_X 4 True CPU_cmp,
    Instruction_ctor ''DEC'' ABSOLUTE_X 7 False CPU_dec,
    Instruction_default,
    Instruction_ctor ''CPX'' IMMEDIATE 2 False CPU_cpx,
    Instruction_ctor ''SBC'' X_INDIRECT 6 False CPU_sbc,
    Instruction_default,
    Instruction_default,
    Instruction_ctor ''CPX'' ZEROPAGE 3 False CPU_cpx,
    Instruction_ctor ''SBC'' ZEROPAGE 3 False CPU_sbc,
    Instruction_ctor ''INC'' ZEROPAGE 5 False CPU_inc,
    Instruction_default,
    Instruction_ctor ''INX'' IMPLIED 2 False CPU_inx,
    Instruction_ctor ''SBC'' IMMEDIATE 2 False CPU_sbc,
    Instruction_ctor ''NOP'' IMPLIED 2 False CPU_nop,
    Instruction_default,
    Instruction_ctor ''CPX'' ABSOLUTE 4 False CPU_cpx,
    Instruction_ctor ''SBC'' ABSOLUTE 4 False CPU_sbc,
    Instruction_ctor ''INC'' ABSOLUTE 6 False CPU_inc,
    Instruction_default,
    Instruction_ctor ''BEQ'' RELATIVE 2 False CPU_beq,
    Instruction_ctor ''SBC'' INDIRECT_Y 5 True CPU_sbc,
    Instruction_default,
    Instruction_default,
    Instruction_default,
    Instruction_ctor ''SBC'' ZEROPAGE_X 4 False CPU_sbc,
    Instruction_ctor ''INC'' ZEROPAGE_X 6 False CPU_inc,
    Instruction_default,
    Instruction_ctor ''SED'' IMPLIED 2 False CPU_sed,
    Instruction_ctor ''SBC'' ABSOLUTE_Y 4 True CPU_sbc,
    Instruction_default,
    Instruction_default,
    Instruction_default,
    Instruction_ctor ''SBC'' ABSOLUTE_X 4 True CPU_sbc,
    Instruction_ctor ''INC'' ABSOLUTE_X 7 False CPU_inc
  ]"

text \<open>
  \<^verbatim>\<open>INSTRUCTIONS[i]\<close>: an index that is not below the number of elements of the array is
  out of bounds, which is undefined behaviour: \<open>None\<close>.
\<close>

definition INSTRUCTIONS_at :: "uint8_t \<Rightarrow> Instruction option" where
  "INSTRUCTIONS_at opcode =
     (if unat opcode < length INSTRUCTIONS then Some (INSTRUCTIONS ! unat opcode) else None)"

subsection \<open>execute and step\<close>

text \<open>The \<^verbatim>\<open>switch (addr_mode)\<close> of \<^verbatim>\<open>execute\<close>, which assigns \<^verbatim>\<open>operand_addr\<close>.\<close>

definition set_operand_addr :: "(uint16_t \<times> CPU) option \<Rightarrow> CPU option" where
  "set_operand_addr r = do { (address, s) \<leftarrow> r; Some (s\<lparr>operand_addr := address\<rparr>) }"

definition resolve_operand :: "CPU \<Rightarrow> CPU option" where
  "resolve_operand s =
     (case addr_mode s of
        ACCUMULATOR \<Rightarrow> Some s
      | IMPLIED \<Rightarrow> Some s
      | IMMEDIATE \<Rightarrow> set_operand_addr (resolve_immediate s)
      | ABSOLUTE \<Rightarrow> set_operand_addr (resolve_absolute 0 s)
      | ZEROPAGE \<Rightarrow> set_operand_addr (resolve_zeropage 0 s)
      | ABSOLUTE_X \<Rightarrow> set_operand_addr (resolve_absolute (cpu_x s) s)
      | ABSOLUTE_Y \<Rightarrow> set_operand_addr (resolve_absolute (cpu_y s) s)
      | ZEROPAGE_X \<Rightarrow> set_operand_addr (resolve_zeropage (cpu_x s) s)
      | ZEROPAGE_Y \<Rightarrow> set_operand_addr (resolve_zeropage (cpu_y s) s)
      | INDIRECT \<Rightarrow> set_operand_addr (resolve_indirect s)
      | X_INDIRECT \<Rightarrow> set_operand_addr (resolve_preindex_indirect s)
      | INDIRECT_Y \<Rightarrow> set_operand_addr (resolve_postindex_indirect s)
      | RELATIVE \<Rightarrow> set_operand_addr (resolve_relative s)
      | NONE \<Rightarrow> Some s)"

text \<open>Calling through a null \<^verbatim>\<open>func\<close> is undefined behaviour: \<open>None\<close>.\<close>

definition execute :: "Instruction \<Rightarrow> CPU \<Rightarrow> CPU option" where
  "execute instruction s = do {
     s1 \<leftarrow> resolve_operand (s\<lparr>addr_mode := ins_addr_mode instruction\<rparr>);
     f \<leftarrow> ins_func instruction;
     s2 \<leftarrow> call f s1;
     let s3 = (if ins_check_page_cross instruction \<and> page_crossed s2
               then s2\<lparr>curr_cycle := curr_cycle s2 + 1, page_crossed := False\<rparr> else s2);
     let s4 = s3\<lparr>curr_cycle := curr_cycle s3 + unat (ins_cycles instruction)\<rparr>;
     Some (s4\<lparr>total_cycles := total_cycles s4 + curr_cycle s4\<rparr>)
   }"

text \<open>
  \<^verbatim>\<open>step\<close> returns \<^verbatim>\<open>curr_cycle\<close> together with the state after the instruction.
  The mnemonic it writes to \<^verbatim>\<open>std::cout\<close> is not part of the state.
\<close>

definition step :: "CPU \<Rightarrow> (nat \<times> CPU) option" where
  "step s = do {
     let s0 = s\<lparr>curr_cycle := 0\<rparr>;
     opcode \<leftarrow> CPUMemoryBus_read (bus s0) (cpu_pc s0);
     let s1 = s0\<lparr>cpu_pc := cpu_pc s0 + 1\<rparr>;
     instruction \<leftarrow> INSTRUCTIONS_at opcode;
     s2 \<leftarrow> execute instruction s1;
     Some (curr_cycle s2, s2)
   }"

text \<open>
  The states a program can be in: the state right after a \<^verbatim>\<open>reset()\<close> of any CPU, and
  the state after a \<^verbatim>\<open>step()\<close> from such a state.
\<close>

inductive reachable :: "CPU \<Rightarrow> bool" where
  after_reset: "reset s = Some s' \<Longrightarrow> reachable s'"
| after_step: "reachable s \<Longrightarrow> step s = Some (n, s') \<Longrightarrow> reachable s'"

section \<open>Power-on, as \<^verbatim>\<open>main\<close> does it\<close>

text \<open>
  The cartridge that holds the PRG ROM \<open>prg\<close> and no CHR ROM, with the fields that the
  constructor decodes from a header whose flag bytes are all zero.
\<close>

definition cartridge_of_prg :: "uint8_t list \<Rightarrow> Cartridge" where
  "cartridge_of_prg prg =
     \<lparr>mirroring = HORIZONTAL, has_battery_ram = False, has_trainer = False,
      ignore_mirroring = False, mapper = \<lparr>prg_rom = prg, chr_rom = []\<rparr>,
      console_type = FAMILY, prg_ram_banks = 0, tv_system = NTSC, is_dual_tv_system = False,
      has_prg_ram = False, has_bus_conflicts = False\<rparr>"

text \<open>
  \<^verbatim>\<open>CPUMemoryBus bus; bus.connect_cartridge(cartridge); CPU cpu(bus); cpu.reset();\<close>
  with the bus built in storage that holds \<open>ram0\<close>.
\<close>

definition power_on :: "(nat \<Rightarrow> uint8_t) \<Rightarrow> uint8_t list \<Rightarrow> CPU option" where
  "power_on ram0 prg =
     reset (CPU_ctor (connect_cartridge (CPUMemoryBus_ctor ram0) (Some (cartridge_of_prg prg))))"

text \<open>
  16 KiB PRG images for NROM. The byte at index \<open>i\<close> is read at CPU address
  \<open>0x8000 + i\<close>; the reset vector sits at indices \<open>0x3FFC\<close> and \<open>0x3FFD\<close>.
\<close>

text \<open>\<^verbatim>\<open>PHP; RTI\<close> at \<open>0x8000\<close>, reset vector \<open>0x8000\<close>.\<close>

definition rom_php_rti :: "uint8_t list" where
  "rom_php_rti = [0x08, 0x40] @ replicate 0x3FFA 0x00 @ [0x00, 0x80, 0x00, 0x00]"

text \<open>\<^verbatim>\<open>BNE +1\<close> at \<open>0x80FD\<close> (bytes \<open>D0 01\<close>), reset vector \<open>0x80FD\<close>.\<close>

definition rom_bne_cross :: "uint8_t list" where
  "rom_bne_cross =
     replicate 0xFD 0x00 @ [0xD0, 0x01] @ replicate 0x3EFD 0x00 @ [0xFD, 0x80, 0x00, 0x00]"

text \<open>An erased PRG ROM: every byte \<open>0xFF\<close>, so the reset vector is \<open>0xFFFF\<close>.\<close>

definition rom_erased :: "uint8_t list" where
  "rom_erased = replicate 0x4000 0xFF"

text \<open>\<^verbatim>\<open>JMP ($30FF)\<close> at \<open>0x8000\<close> (bytes \<open>6C FF 30\<close>), reset vector \<open>0x8000\<close>.\<close>

definition rom_jmp_30FF :: "uint8_t list" where
  "rom_jmp_30FF = [0x6C, 0xFF, 0x30] @ replicate 0x3FF9 0x00 @ [0x00, 0x80, 0x00, 0x00]"

text \<open>\<^verbatim>\<open>JMP ($02FF)\<close> at \<open>0x8000\<close> (bytes \<open>6C FF 02\<close>), reset vector \<open>0x8000\<close>.\<close>

definition rom_jmp_02FF :: "uint8_t list" where
  "rom_jmp_02FF = [0x6C, 0xFF, 0x02] @ replicate 0x3FF9 0x00 @ [0x00, 0x80, 0x00, 0x00]"

text \<open>
  iNES images: the 16-byte header with one PRG bank, no CHR bank and all flag bytes zero,
  and a whole file whose PRG bank is 16 KiB of \<open>0xEA\<close>.
\<close>

definition ines_header :: "uint8_t list" where
  "ines_header = [0x4E, 0x45, 0x53, 0x1A, 1, 0, 0, 0, 0, 0, 0, 0, 0, 0, 0, 0]"

definition ines_nop_image :: "uint8_t list" where
  "ines_nop_image = ines_header @ replicate 0x4000 0xEA"

section \<open>Mapper 0: which bytes of PRG ROM a read can return\<close>

lemma and_3FFF_bound: "unat ((a :: uint16_t) AND 0x3FFF) < 0x4000"
proof -
  have "a AND 0x3FFF \<le> 0x3FFF"
    by (rule word_and_le1)
  then have "unat (a AND 0x3FFF) \<le> unat (0x3FFF :: uint16_t)"
    by (simp only: word_le_nat_alt)
  then show ?thesis by simp
qed

lemma u16_max: "(a :: uint16_t) \<le> 0xFFFF"
proof -
  have "unat a < 2 ^ LENGTH(16)" by (rule unsigned_less)
  then show ?thesis by (simp add: word_le_nat_alt)
qed

lemma or_4000_and_3FFF: "((a :: uint16_t) OR 0x4000) AND 0x3FFF = a AND 0x3FFF"
proof -
  have "(0x4000 :: uint16_t) AND 0x3FFF = 0" by simp
  then show ?thesis
    by (simp add: bit.conj_disj_distrib2)
qed

lemma Mapper0_read_prg:
  assumes "0x8000 \<le> A" and "0x4000 \<le> length (prg_rom m)"
  shows "Mapper0_read m A = Some (prg_rom m ! unat (A AND 0x3FFF))"
  using assms and_3FFF_bound [of A]
  by (simp add: Mapper0_read_def vector_at_def u16_max)

text \<open>
  Claim C5, as stated, fails: with a 32 KiB PRG ROM whose first bank is all \<open>0\<close> and whose
  second bank is all \<open>1\<close>, the read at \<open>0xC000\<close> returns the byte at index \<open>0\<close> of the
  first bank, while the first byte of the second bank (index \<open>0x4000\<close>) is \<open>1\<close>.
\<close>

theorem C5_second_bank_counterexample:
  "Mapper0_read \<lparr>prg_rom = replicate 0x4000 0 @ replicate 0x4000 1, chr_rom = []\<rparr> 0xC000 = Some 0
   \<and> (replicate 0x4000 0 @ replicate 0x4000 (1 :: uint8_t)) ! 0x4000 = 1"
  by (simp add: Mapper0_read_def vector_at_def nth_append)

text \<open>
  Claim C5, amended: for every address \<open>A\<close> in \<open>0x8000\<close>--\<open>0xFFFF\<close> and a PRG ROM of at
  least 16 KiB (so also one of 32 KiB), \<^verbatim>\<open>Mapper0::read(A)\<close> returns
  \<open>prg_rom[A & 0x3FFF]\<close>; that index is always below \<open>0x4000\<close>, so only the first 16 KiB
  bank is ever read, and the read at \<open>A | 0x4000\<close> (the window \<open>0xC000\<close>--\<open>0xFFFF\<close>)
  returns the same byte as the read at \<open>A\<close>.
\<close>

theorem C5_read_prg_first_bank_only:
  assumes "0x8000 \<le> A" and "0x4000 \<le> length (prg_rom m)"
  shows "Mapper0_read m A = Some (prg_rom m ! unat (A AND 0x3FFF))
         \<and> unat (A AND 0x3FFF) < 0x4000
         \<and> Mapper0_read m (A OR 0x4000) = Mapper0_read m A"
proof -
  have "A \<le> A OR 0x4000" by (rule le_word_or2)
  with assms(1) have hi: "0x8000 \<le> A OR 0x4000" by (rule order_trans)
  have "Mapper0_read m (A OR 0x4000) = Some (prg_rom m ! unat ((A OR 0x4000) AND 0x3FFF))"
    using hi assms(2) by (rule Mapper0_read_prg)
  then show ?thesis
    using Mapper0_read_prg [OF assms] and_3FFF_bound [of A]
    by (simp add: or_4000_and_3FFF)
qed

theorem C5_read_prg_first_bank_only_witness:
  "Mapper0_read \<lparr>prg_rom = replicate 0x4000 0 @ replicate 0x4000 1, chr_rom = []\<rparr> 0x8123 = Some 0
   \<and> Mapper0_read \<lparr>prg_rom = replicate 0x4000 0 @ replicate 0x4000 1, chr_rom = []\<rparr> 0xC123 = Some 0"
  using C5_read_prg_first_bank_only
    [of "0x8123" "\<lparr>prg_rom = replicate 0x4000 0 @ replicate 0x4000 1, chr_rom = []\<rparr>"]
  by (simp add: nth_append)

section \<open>Bus: the internal RAM of a fresh bus\<close>

lemma CPUMemoryBus_read_fresh:
  "A \<le> 0x1FFF \<Longrightarrow>
   CPUMemoryBus_read (CPUMemoryBus_ctor u) A = Some (u (unat (A AND 0x07FF)))"
  by (simp add: CPUMemoryBus_read_def CPUMemoryBus_ctor_def)

text \<open>
  Claim C6 fails on the code: the constructor leaves \<^verbatim>\<open>ram\<close> uninitialised, so a
  fresh bus reads back whatever its storage held. Constructed in storage whose bytes are
  all \<open>0xFF\<close>, \<^verbatim>\<open>read(0x0000)\<close> returns \<open>0xFF\<close>, not \<open>0\<close>.
\<close>

theorem C6_fresh_bus_reads_prior_storage:
  "CPUMemoryBus_read (CPUMemoryBus_ctor (\<lambda>_. 0xFF)) 0x0000 = Some 0xFF"
  by (simp add: CPUMemoryBus_read_def CPUMemoryBus_ctor_def)

section \<open>The decode table\<close>

lemma length_INSTRUCTIONS: "length INSTRUCTIONS = 255"
  by (simp add: INSTRUCTIONS_def)

lemma INSTRUCTIONS_at_in_bounds:
  assumes "opcode \<noteq> 0xFF"
  shows "INSTRUCTIONS_at opcode = Some (INSTRUCTIONS ! unat opcode)"
proof -
  have "unat opcode < 2 ^ LENGTH(8)" by (rule unsigned_less)
  moreover have "unat opcode \<noteq> 255" using assms
    by (simp add: word_unat_eq_iff)
  ultimately have "unat opcode < 255" by simp
  then show ?thesis by (simp add: INSTRUCTIONS_at_def length_INSTRUCTIONS)
qed

section \<open>The stack\<close>

lemma unat_ucast_8_16: "unat (ucast (b :: uint8_t) :: uint16_t) = unat b"
proof -
  have "unat b < 2 ^ LENGTH(8)" by (rule unsigned_less)
  then show ?thesis by (simp add: unsigned_ucast_eq take_bit_nat_eq_self)
qed

lemma stack_and: "(0x100 :: uint16_t) AND ucast (b :: uint8_t) = 0"
proof (rule bit_eqI)
  fix n
  have e: "(0x100 :: uint16_t) = push_bit 8 1" by simp
  show "bit ((0x100 :: uint16_t) AND ucast b) n = bit (0 :: uint16_t) n"
    unfolding e by (simp only: bit_simps) (auto dest: bit_imp_le_length)
qed

lemma stack_or_add: "(0x100 :: uint16_t) OR ucast (b :: uint8_t) = 0x100 + ucast b"
  by (rule disjunctive_add_eq_or [symmetric]) (rule stack_and)

lemma unat_stack: "unat ((0x100 :: uint16_t) OR ucast (b :: uint8_t)) = 256 + unat b"
proof -
  have lt: "unat b < 2 ^ LENGTH(8)" by (rule unsigned_less)
  have "unat ((0x100 :: uint16_t) + ucast b) = unat (0x100 :: uint16_t) + unat (ucast b :: uint16_t)"
    using lt by (subst unat_add_lem [symmetric]) (simp add: unat_ucast_8_16)
  then show ?thesis by (simp add: stack_or_add unat_ucast_8_16)
qed

lemma stack_bounds:
  "(0x0100 :: uint16_t) \<le> 0x100 OR ucast (b :: uint8_t) \<and> (0x100 :: uint16_t) OR ucast b \<le> 0x01FF"
proof -
  have "unat b < 2 ^ LENGTH(8)" by (rule unsigned_less)
  then show ?thesis by (simp add: word_le_nat_alt unat_stack)
qed

lemma stack_in_ram: "(0x100 :: uint16_t) OR ucast (b :: uint8_t) \<le> 0x1FFF"
proof -
  have "unat b < 2 ^ LENGTH(8)" by (rule unsigned_less)
  then show ?thesis by (simp add: word_le_nat_alt unat_stack)
qed

lemma stack_cell: "unat (((0x100 :: uint16_t) OR ucast (b :: uint8_t)) AND 0x07FF) = 256 + unat b"
proof -
  have lt: "unat b < 2 ^ LENGTH(8)" by (rule unsigned_less)
  have m: "(0x07FF :: uint16_t) = mask 11" by (simp add: mask_eq_exp_minus_1)
  have "(0x100 :: uint16_t) OR ucast b < 2 ^ 11"
    using lt by (simp add: word_less_nat_alt unat_stack)
  then have "((0x100 :: uint16_t) OR ucast b) AND mask 11 = 0x100 OR ucast b"
    by (rule less_mask_eq)
  then show ?thesis by (simp add: m unat_stack)
qed

lemma stack_write:
  "CPUMemoryBus_write b (STACK_BASE_ADDRESS OR ucast (sp :: uint8_t)) data =
     Some (b\<lparr>ram := (ram b)(unat (STACK_BASE_ADDRESS OR ucast sp) := data)\<rparr>)"
  by (simp add: CPUMemoryBus_write_def STACK_BASE_ADDRESS_def stack_in_ram stack_cell unat_stack)

lemma stack_read:
  "CPUMemoryBus_read b (STACK_BASE_ADDRESS OR ucast (sp :: uint8_t)) =
     Some (ram b (unat (STACK_BASE_ADDRESS OR ucast sp)))"
  by (simp add: CPUMemoryBus_read_def STACK_BASE_ADDRESS_def stack_in_ram stack_cell unat_stack)

lemma push_stack_eq:
  "push_stack data s =
     Some (s\<lparr>cpu_sp := cpu_sp s - 1,
             bus := (bus s)\<lparr>ram := (ram (bus s))(unat (STACK_BASE_ADDRESS OR ucast (cpu_sp s)) := data)\<rparr>\<rparr>)"
  by (simp add: push_stack_def stack_write)

lemma pop_stack_eq:
  "pop_stack s =
     Some (ram (bus s) (unat (STACK_BASE_ADDRESS OR ucast (cpu_sp s + 1))),
           s\<lparr>cpu_sp := cpu_sp s + 1\<rparr>)"
  by (simp add: pop_stack_def stack_read Let_def)

text \<open>
  Claim C10: for every value of \<^verbatim>\<open>sp\<close>, \<^verbatim>\<open>push_stack\<close> succeeds and writes the one
  cell at address \<open>0x0100 | sp\<close>, which lies in \<open>0x0100\<close>--\<open>0x01FF\<close>, leaving the rest
  of the bus as it was and \<^verbatim>\<open>sp\<close> decremented modulo 256; \<^verbatim>\<open>pop_stack\<close> succeeds,
  leaves \<^verbatim>\<open>sp\<close> incremented modulo 256 and returns the cell at \<open>0x0100 | (sp + 1)\<close>,
  which lies in \<open>0x0100\<close>--\<open>0x01FF\<close>, changing no memory. A push at \<open>sp = 0x00\<close> leaves
  \<open>sp = 0xFF\<close>, a pop at \<open>sp = 0xFF\<close> leaves \<open>sp = 0x00\<close>.
\<close>

theorem C10_stack_stays_in_page_one:
  "0x0100 \<le> STACK_BASE_ADDRESS OR ucast (cpu_sp s)
   \<and> STACK_BASE_ADDRESS OR ucast (cpu_sp s) \<le> 0x01FF
   \<and> push_stack data s =
       Some (s\<lparr>cpu_sp := cpu_sp s - 1,
               bus := (bus s)\<lparr>ram := (ram (bus s))
                        (unat (STACK_BASE_ADDRESS OR ucast (cpu_sp s)) := data)\<rparr>\<rparr>)
   \<and> 0x0100 \<le> STACK_BASE_ADDRESS OR ucast (cpu_sp s + 1)
   \<and> STACK_BASE_ADDRESS OR ucast (cpu_sp s + 1) \<le> 0x01FF
   \<and> pop_stack s =
       Some (ram (bus s) (unat (STACK_BASE_ADDRESS OR ucast (cpu_sp s + 1))),
             s\<lparr>cpu_sp := cpu_sp s + 1\<rparr>)
   \<and> map_option cpu_sp (push_stack data (s\<lparr>cpu_sp := 0x00\<rparr>)) = Some 0xFF
   \<and> map_option (cpu_sp \<circ> snd) (pop_stack (s\<lparr>cpu_sp := 0xFF\<rparr>)) = Some 0x00"
  using stack_bounds [of "cpu_sp s"] stack_bounds [of "cpu_sp s + 1"]
  by (simp add: push_stack_eq pop_stack_eq STACK_BASE_ADDRESS_def)

section \<open>ADC and SBC\<close>

lemma adc'_depends_on_a_p:
  "cpu_a s1 = cpu_a s2 \<Longrightarrow> cpu_p s1 = cpu_p s2 \<Longrightarrow>
   cpu_a (adc' v s1) = cpu_a (adc' v s2) \<and> cpu_p (adc' v s1) = cpu_p (adc' v s2)"
  by (simp add: adc'_def set_flag_def set_nz_flags_def Let_def)

text \<open>
  Claim C9: from two states with the same accumulator and the same status byte, SBC
  with operand \<open>x\<close> and ADC with operand \<open>x XOR 0xFF\<close> both succeed and leave the same
  accumulator and the same status byte (so the same C, Z, V and N).
\<close>

theorem C9_sbc_is_adc_of_inverted_operand:
  assumes "get_operand s1 = Some x" and "get_operand s2 = Some (x XOR 0xFF)"
    and "cpu_a s1 = cpu_a s2" and "cpu_p s1 = cpu_p s2"
  shows "\<exists>t1 t2. sbc s1 = Some t1 \<and> adc s2 = Some t2
           \<and> cpu_a t1 = cpu_a t2 \<and> cpu_p t1 = cpu_p t2"
  using assms adc'_depends_on_a_p [of s1 s2 "x XOR 0xFF"]
  by (simp add: sbc_def adc_def)

theorem C9_sbc_is_adc_of_inverted_operand_witness:
  "\<exists>t1 t2. sbc (CPU_ctor (CPUMemoryBus_ctor (\<lambda>_. 0x10))) = Some t1
        \<and> adc (CPU_ctor (CPUMemoryBus_ctor (\<lambda>_. 0xEF))) = Some t2
        \<and> cpu_a t1 = cpu_a t2 \<and> cpu_p t1 = cpu_p t2"
  using C9_sbc_is_adc_of_inverted_operand
    [of "CPU_ctor (CPUMemoryBus_ctor (\<lambda>_. 0x10))" "0x10" "CPU_ctor (CPUMemoryBus_ctor (\<lambda>_. 0xEF))"]
  by (simp add: get_operand_def CPU_ctor_def CPUMemoryBus_ctor_def CPUMemoryBus_read_def)

section \<open>What an instruction can do to the status byte\<close>

lemmas flag_defs = CARRY_def ZERO_def INTERRUPT_def DECIMAL_def BREAK_def UNUSED_def
  OVERFLOW_def NEGATIVE_def

lemmas handler_defs = brk_def ora_def and'_def eor_def asl_def lsr_def rol_def ror_def bit'_def
  php_def plp_def pha_def pla_def clc_def sec_def cli_def sei_def clv_def cld_def sed_def rti_def
  rts_def jmp_def adc_def sbc_def sta_def stx_def sty_def inx_def dex_def iny_def dey_def inc_def
  dec_def txa_def tya_def txs_def tay_def tax_def tsx_def lda_def ldx_def ldy_def cpx_def cpy_def
  cmp_def bpl_def bmi_def bvc_def bvs_def bcc_def bcs_def bne_def beq_def jsr_def nop_def

lemma flag_bits:
  "bit CARRY n \<longleftrightarrow> n = 0" "bit ZERO n \<longleftrightarrow> n = 1" "bit INTERRUPT n \<longleftrightarrow> n = 2"
  "bit DECIMAL n \<longleftrightarrow> n = 3" "bit BREAK n \<longleftrightarrow> n = 4" "bit UNUSED n \<longleftrightarrow> n = 5"
  "bit OVERFLOW n \<longleftrightarrow> n = 6" "bit NEGATIVE n \<longleftrightarrow> n = 7"
  unfolding flag_defs by (simp_all only: bit_simps) (auto dest: bit_imp_le_length)

lemma set_flag_other_bit:
  "\<not> bit flag n \<Longrightarrow> bit (cpu_p (set_flag flag v s)) n = bit (cpu_p s) n"
  by (auto simp: set_flag_def bit_simps dest: bit_imp_le_length)

lemma set_nz_flags_bit:
  "n \<noteq> 1 \<Longrightarrow> n \<noteq> 7 \<Longrightarrow> bit (cpu_p (set_nz_flags d s)) n = bit (cpu_p s) n"
  by (simp add: set_nz_flags_def set_flag_other_bit flag_bits)

lemma adc'_bit:
  "n \<noteq> 0 \<Longrightarrow> n \<noteq> 1 \<Longrightarrow> n \<noteq> 6 \<Longrightarrow> n \<noteq> 7 \<Longrightarrow> bit (cpu_p (adc' v s)) n = bit (cpu_p s) n"
  by (simp add: adc'_def Let_def set_nz_flags_bit set_flag_other_bit flag_bits)

lemma store_p: "store d s = Some s' \<Longrightarrow> cpu_p s' = cpu_p s"
  by (auto simp: store_def split: if_splits Option.bind_splits)

lemma branch_p: "branch c s = Some s' \<Longrightarrow> cpu_p s' = cpu_p s"
  by (auto simp: branch_def Let_def split: if_splits Option.bind_splits)

lemma call_bit5:
  assumes "call f s = Some s'" and "bit (cpu_p s) 5"
  shows "bit (cpu_p s') 5"
  using assms
  by (cases f)
     (auto simp: handler_defs push_stack_eq pop_stack_eq set_nz_flags_bit set_flag_other_bit
        flag_bits adc'_bit Let_def bit_simps
      dest: store_p branch_p split: Option.bind_splits if_splits)

lemma call_bit4:
  assumes "call f s = Some s'" and "\<not> bit (cpu_p s) 4" and "f \<noteq> CPU_rti"
  shows "\<not> bit (cpu_p s') 4"
  using assms
  by (cases f)
     (auto simp: handler_defs push_stack_eq pop_stack_eq set_nz_flags_bit set_flag_other_bit
        flag_bits adc'_bit Let_def bit_simps
      dest: store_p branch_p split: Option.bind_splits if_splits)

lemmas resolver_defs = resolve_immediate_def resolve_zeropage_def resolve_absolute_def
  resolve_indirect_def resolve_preindex_indirect_def resolve_postindex_indirect_def
  resolve_relative_def read_wrapped_page_def

lemma resolve_operand_p: "resolve_operand s = Some s' \<Longrightarrow> cpu_p s' = cpu_p s"
  by (cases "addr_mode s")
     (auto simp: resolve_operand_def set_operand_addr_def resolver_defs Let_def
      split: Option.bind_splits if_splits)

lemma execute_call:
  assumes "execute i s = Some s'"
  shows "\<exists>t u f. resolve_operand (s\<lparr>addr_mode := ins_addr_mode i\<rparr>) = Some t
           \<and> ins_func i = Some f \<and> call f t = Some u \<and> cpu_p s' = cpu_p u"
  using assms by (auto simp: execute_def Let_def split: Option.bind_splits if_splits)

lemma execute_bit5:
  assumes "execute i s = Some s'" and "bit (cpu_p s) 5"
  shows "bit (cpu_p s') 5"
proof -
  from execute_call [OF assms(1)] obtain t u f where
    r: "resolve_operand (s\<lparr>addr_mode := ins_addr_mode i\<rparr>) = Some t"
    and c: "call f t = Some u" and e: "cpu_p s' = cpu_p u" by blast
  from resolve_operand_p [OF r] assms(2) have "bit (cpu_p t) 5" by simp
  with c have "bit (cpu_p u) 5" by (rule call_bit5)
  with e show ?thesis by simp
qed

lemma step_bit5:
  assumes "step s = Some (n, s')" and "bit (cpu_p s) 5"
  shows "bit (cpu_p s') 5"
  using assms
  by (auto simp: step_def Let_def split: Option.bind_splits elim!: execute_bit5)

lemma reset_p: "reset s = Some s' \<Longrightarrow> cpu_p s' = 0x24"
  by (auto simp: reset_def Let_def flag_defs split: Option.bind_splits)

lemma reachable_bit5: "reachable s \<Longrightarrow> bit (cpu_p s) 5"
proof (induction rule: reachable.induct)
  case (after_reset s s')
  then show ?case by (simp add: reset_p bit_simps)
next
  case (after_step s n s')
  then show ?case by (blast intro: step_bit5)
qed


section \<open>Running concrete programs\<close>

lemma rom_php_rti_at:
  "vector_at rom_php_rti 0 = Some 0x08" "vector_at rom_php_rti (Suc 0) = Some 0x40"
  "vector_at rom_php_rti 0x3FFC = Some 0x00" "vector_at rom_php_rti 0x3FFD = Some 0x80"
  by (simp_all add: rom_php_rti_def vector_at_def nth_append)

lemma rom_bne_cross_at:
  "vector_at rom_bne_cross 0xFD = Some 0xD0" "vector_at rom_bne_cross 0xFE = Some 0x01"
  "vector_at rom_bne_cross 0x3FFC = Some 0xFD" "vector_at rom_bne_cross 0x3FFD = Some 0x80"
  by (simp_all add: rom_bne_cross_def vector_at_def nth_append)

lemma rom_erased_at:
  "vector_at rom_erased 0x3FFC = Some 0xFF" "vector_at rom_erased 0x3FFD = Some 0xFF"
  "vector_at rom_erased 0x3FFF = Some 0xFF"
  by (simp_all add: rom_erased_def vector_at_def)

lemma rom_jmp_30FF_at:
  "vector_at rom_jmp_30FF 0 = Some 0x6C" "vector_at rom_jmp_30FF (Suc 0) = Some 0xFF"
  "vector_at rom_jmp_30FF 2 = Some 0x30"
  "vector_at rom_jmp_30FF 0x3FFC = Some 0x00" "vector_at rom_jmp_30FF 0x3FFD = Some 0x80"
  by (simp_all add: rom_jmp_30FF_def vector_at_def nth_append)

lemma rom_jmp_02FF_at:
  "vector_at rom_jmp_02FF 0 = Some 0x6C" "vector_at rom_jmp_02FF (Suc 0) = Some 0xFF"
  "vector_at rom_jmp_02FF 2 = Some 0x02"
  "vector_at rom_jmp_02FF 0x3FFC = Some 0x00" "vector_at rom_jmp_02FF 0x3FFD = Some 0x80"
  by (simp_all add: rom_jmp_02FF_def vector_at_def nth_append)

lemma INSTRUCTIONS_at_08: "INSTRUCTIONS_at 0x08 = Some (Instruction_ctor ''PHP'' IMPLIED 3 False CPU_php)"
  by (simp add: INSTRUCTIONS_at_def INSTRUCTIONS_def)
lemma INSTRUCTIONS_at_40: "INSTRUCTIONS_at 0x40 = Some (Instruction_ctor ''RTI'' IMPLIED 6 False CPU_rti)"
  by (simp add: INSTRUCTIONS_at_def INSTRUCTIONS_def)
lemma INSTRUCTIONS_at_6C: "INSTRUCTIONS_at 0x6C = Some (Instruction_ctor ''JMP'' INDIRECT 5 False CPU_jmp)"
  by (simp add: INSTRUCTIONS_at_def INSTRUCTIONS_def)
lemma INSTRUCTIONS_at_D0: "INSTRUCTIONS_at 0xD0 = Some (Instruction_ctor ''BNE'' RELATIVE 2 False CPU_bne)"
  by (simp add: INSTRUCTIONS_at_def INSTRUCTIONS_def)

lemmas eval_defs = power_on_def reset_def CPU_ctor_def connect_cartridge_def CPUMemoryBus_ctor_def
  cartridge_of_prg_def CPUMemoryBus_read_def CPUMemoryBus_write_def Cartridge_read_def
  Mapper0_read_def RESET_VECTOR_ADDRESS_def IRQ_VECTOR_ADDRESS_def STACK_BASE_ADDRESS_def
  word_of_bytes_def Let_def step_def execute_def Instruction_ctor_def resolve_operand_def
  set_operand_addr_def resolver_defs handler_defs push_stack_def pop_stack_def flag_defs
  get_operand_def store_def set_flag_def set_nz_flags_def is_page_crossed_def branch_def

section \<open>The unused bit of the status byte\<close>

text \<open>
  Claim C8: in every state reached from a \<^verbatim>\<open>reset()\<close> by any number of \<^verbatim>\<open>step()\<close>
  calls, bit 5 (U) of the status byte \<^verbatim>\<open>p\<close> is 1.
\<close>

theorem C8_unused_bit_always_set: "reachable s \<Longrightarrow> bit (cpu_p s) 5"
  by (rule reachable_bit5)

theorem C8_unused_bit_always_set_witness:
  "\<exists>s n s'. power_on (\<lambda>_. 0) rom_php_rti = Some s \<and> step s = Some (n, s')
      \<and> reachable s' \<and> bit (cpu_p s') 5"
proof -
  have "do { s \<leftarrow> power_on (\<lambda>_. 0) rom_php_rti; (n, s') \<leftarrow> step s; Some () } = Some ()"
    by (simp add: eval_defs rom_php_rti_at INSTRUCTIONS_at_08)
  then obtain s n s' where p: "power_on (\<lambda>_. 0) rom_php_rti = Some s"
    and st: "step s = Some (n, s')"
    by (auto split: Option.bind_splits)
  from p have "reachable s"
    unfolding power_on_def by (rule reachable.after_reset)
  then have r: "reachable s'" using st by (rule reachable.after_step)
  with p st C8_unused_bit_always_set [OF r] show ?thesis by blast
qed

section \<open>The break bit of the status byte\<close>

text \<open>
  Every handler but \<^verbatim>\<open>rti\<close> keeps a clear bit 4 clear; \<^verbatim>\<open>plp\<close> masks it out of the
  popped byte, \<^verbatim>\<open>rti\<close> takes it from the popped byte as it is.
\<close>

lemma execute_keeps_break_clear:
  assumes "execute i s = Some s'" and "\<not> bit (cpu_p s) 4" and "ins_func i \<noteq> Some CPU_rti"
  shows "\<not> bit (cpu_p s') 4"
proof -
  from execute_call [OF assms(1)] obtain t u f where
    r: "resolve_operand (s\<lparr>addr_mode := ins_addr_mode i\<rparr>) = Some t"
    and f: "ins_func i = Some f"
    and c: "call f t = Some u" and e: "cpu_p s' = cpu_p u" by blast
  from resolve_operand_p [OF r] assms(2) have nb: "\<not> bit (cpu_p t) 4" by simp
  from f assms(3) have nf: "f \<noteq> CPU_rti" by simp
  have "\<not> bit (cpu_p u) 4" by (rule call_bit4 [OF c nb nf])
  with e show ?thesis by simp
qed

lemma plp_clears_break: "plp s = Some s' \<Longrightarrow> \<not> bit (cpu_p s') 4"
  by (auto simp: plp_def pop_stack_eq flag_bits bit_simps)

lemma rti_keeps_stacked_break:
  "rti s = Some s' \<Longrightarrow>
   bit (cpu_p s') 4 = bit (ram (bus s) (unat (STACK_BASE_ADDRESS OR ucast (cpu_sp s + 1)))) 4"
  by (auto simp: rti_def pop_stack_eq flag_bits bit_simps Let_def)

text \<open>
  Claim C4 fails on the code at RTI. The program \<^verbatim>\<open>PHP; RTI\<close> at the reset vector:
  after the reset \<^verbatim>\<open>p\<close> is \<open>0x24\<close>; PHP pushes \<open>0x34\<close> (B set in the copy); RTI pops it
  into \<^verbatim>\<open>p\<close> with only U forced, so the live \<^verbatim>\<open>p\<close> is \<open>0x34\<close> and its bit 4 is set.
\<close>

theorem C4_rti_leaves_break_set:
  "do { s \<leftarrow> power_on (\<lambda>_. 0) rom_php_rti;
        (n, s1) \<leftarrow> step s;
        (m, s2) \<leftarrow> step s1;
        Some (cpu_p s, cpu_p s2, bit (cpu_p s2) 4) } = Some (0x24, 0x34, True)"
  by (simp add: eval_defs rom_php_rti_at INSTRUCTIONS_at_08 INSTRUCTIONS_at_40 bit_simps)

section \<open>Cycles of a branch\<close>

text \<open>
  A table entry with \<^verbatim>\<open>check_page_cross = false\<close>, which all eight branch entries
  are, costs its base cycles plus the one cycle that \<^verbatim>\<open>branch\<close> adds when taken: 2 or 3,
  whatever \<^verbatim>\<open>page_crossed\<close> says.
\<close>

lemma branch_curr_cycle:
  "branch c s = Some s' \<Longrightarrow> curr_cycle s' = curr_cycle s + (if c then 1 else 0)"
  by (auto simp: branch_def Let_def split: Option.bind_splits if_splits)

lemma resolve_operand_curr_cycle: "resolve_operand s = Some s' \<Longrightarrow> curr_cycle s' = curr_cycle s"
  by (cases "addr_mode s")
     (auto simp: resolve_operand_def set_operand_addr_def resolver_defs Let_def
      split: Option.bind_splits if_splits)

lemma branch_instruction_cycles:
  assumes "execute (Instruction_ctor m RELATIVE 2 False f) s = Some s'"
    and "f \<in> {CPU_bpl, CPU_bmi, CPU_bvc, CPU_bvs, CPU_bcc, CPU_bcs, CPU_bne, CPU_beq}"
  shows "curr_cycle s' = curr_cycle s + 2 \<or> curr_cycle s' = curr_cycle s + 3"
proof -
  from assms(1) obtain t u where
    r: "resolve_operand (s\<lparr>addr_mode := RELATIVE\<rparr>) = Some t"
    and c: "call f t = Some u" and e: "curr_cycle s' = curr_cycle u + 2"
    by (auto simp: execute_def Instruction_ctor_def Let_def split: Option.bind_splits)
  from resolve_operand_curr_cycle [OF r] have t: "curr_cycle t = curr_cycle s" by simp
  from assms(2) c obtain b where "branch b t = Some u"
    by (auto simp: bpl_def bmi_def bvc_def bvs_def bcc_def bcs_def bne_def beq_def)
  from branch_curr_cycle [OF this] t e show ?thesis by (simp split: if_splits)
qed

text \<open>
  Claim C1 fails on the code for a taken branch that crosses a page. \<^verbatim>\<open>BNE +1\<close> at
  \<open>0x80FD\<close> with Z clear: the PC after the offset byte is \<open>0x80FF\<close>, the target is
  \<open>0x8100\<close> on the next page, \<^verbatim>\<open>page_crossed\<close> is set, and \<^verbatim>\<open>step()\<close> returns 3
  cycles (2 + 1), not the 4 (2 + 1 + 1) of the claim.
\<close>

theorem C1_taken_branch_page_cross_costs_3:
  "do { s \<leftarrow> power_on (\<lambda>_. 0) rom_bne_cross;
        (n, s1) \<leftarrow> step s;
        Some (n, cpu_pc s + 2, cpu_pc s1, page_crossed s1) } = Some (3, 0x80FF, 0x8100, True)"
  by (simp add: eval_defs rom_bne_cross_at INSTRUCTIONS_at_D0)

section \<open>Opcode 0xFF\<close>

text \<open>
  Claim C2 fails on the code at opcode \<open>0xFF\<close>: the table has 255 elements, so index
  \<open>0xFF\<close> is out of bounds. With an erased PRG ROM the reset vector is \<open>0xFFFF\<close>, the
  byte fetched there is \<open>0xFF\<close>, and \<^verbatim>\<open>step()\<close> has no defined result.
\<close>

theorem C2_opcode_FF_is_out_of_bounds:
  "length INSTRUCTIONS = 255 \<and> INSTRUCTIONS_at 0xFF = None
   \<and> do { s \<leftarrow> power_on (\<lambda>_. 0) rom_erased; CPUMemoryBus_read (bus s) (cpu_pc s) } = Some 0xFF
   \<and> do { s \<leftarrow> power_on (\<lambda>_. 0) rom_erased; step s } = None"
  by (simp add: eval_defs rom_erased_at length_INSTRUCTIONS INSTRUCTIONS_at_def)

section \<open>Pointer fetches that wrap within a page\<close>

lemma u16_split: "(w :: uint16_t) = (w AND 0xFF00) + (w AND 0x00FF)"
proof -
  have z: "(0xFF00 :: uint16_t) AND 0x00FF = 0" by simp
  have "(w AND 0xFF00) AND (w AND 0x00FF) = w AND (0xFF00 AND 0x00FF)"
    by (simp only: and.assoc and.left_commute and.idem and.left_idem)
  then have d: "(w AND 0xFF00) AND (w AND 0x00FF) = 0" by (simp add: z)
  have o: "(0xFF00 :: uint16_t) OR 0x00FF = - 1" by simp
  have "(w AND 0xFF00) + (w AND 0x00FF) = (w AND 0xFF00) OR (w AND 0x00FF)"
    using d by (rule disjunctive_add_eq_or)
  also have "\<dots> = w AND (0xFF00 OR 0x00FF)"
    by (simp only: bit.conj_disj_distrib)
  also have "\<dots> = w" by (simp only: o and.right_neutral)
  finally show ?thesis by simp
qed

lemma low_FF_crosses:
  assumes "(a :: uint16_t) AND 0x00FF = 0x00FF"
  shows "is_page_crossed a (a + 1)"
proof (unfold is_page_crossed_def, rule notI)
  assume eq: "a AND 0xFF00 = (a + 1) AND 0xFF00"
  define h where "h = a AND 0xFF00"
  define l where "l = (a + 1) AND 0x00FF"
  have "a = h + 0x00FF" using u16_split [of a] assms by (simp add: h_def)
  then have "a + 1 = h + 0x0100" by simp
  moreover have "a + 1 = h + l"
    using u16_split [of "a + 1"] eq by (simp add: h_def l_def)
  ultimately have "h + 0x0100 = h + l" by simp
  then have "l = 0x0100" by simp
  moreover have "l \<le> 0x00FF" unfolding l_def by (rule word_and_le1)
  ultimately show False by simp
qed

lemma read_wrapped_page_at_FF:
  assumes "address AND 0x00FF = 0x00FF"
    and "CPUMemoryBus_read (bus s) address = Some lo"
    and "CPUMemoryBus_read (bus s) (address AND 0xFF00) = Some hi"
  shows "read_wrapped_page s address = Some (word_of_bytes lo hi)"
  using assms low_FF_crosses [OF assms(1)] by (simp add: read_wrapped_page_def)

lemma ppu_window_reads_zero:
  "0x2000 \<le> A \<Longrightarrow> A \<le> 0x3FFF \<Longrightarrow> CPUMemoryBus_read b A = Some 0"
  by (auto simp: CPUMemoryBus_read_def word_le_nat_alt)

text \<open>
  Claim C7, as stated, fails in its example: the addresses \<open>0x30FF\<close> and \<open>0x3000\<close> lie in
  the PPU register window of the bus, where writes are dropped and reads return \<open>0\<close>.
  After writing \<open>0x40\<close> to \<open>0x30FF\<close>, \<open>0x80\<close> to \<open>0x3000\<close> and \<open>0xFF\<close> to \<open>0x3100\<close>,
  \<^verbatim>\<open>JMP ($30FF)\<close> sets the PC to \<open>0x0000\<close>, not to \<open>0x8040\<close>.
\<close>

theorem C7_jmp_30FF_counterexample:
  "do { s \<leftarrow> power_on (\<lambda>_. 0) rom_jmp_30FF;
        b1 \<leftarrow> CPUMemoryBus_write (bus s) 0x30FF 0x40;
        b2 \<leftarrow> CPUMemoryBus_write b1 0x3000 0x80;
        b3 \<leftarrow> CPUMemoryBus_write b2 0x3100 0xFF;
        (n, s1) \<leftarrow> step (s\<lparr>bus := b3\<rparr>);
        Some (cpu_pc s1) } = Some 0x0000"
  by (simp add: eval_defs rom_jmp_30FF_at INSTRUCTIONS_at_6C)

text \<open>
  Claim C7, amended: when the low byte of a pointer sits at an address of the form
  \<open>xxFF\<close>, \<^verbatim>\<open>read_wrapped_page\<close> takes the high byte from \<open>xx00\<close> of the same page,
  and so do the INDIRECT, X\_INDIRECT and INDIRECT\_Y resolutions, whose pointer fetch
  it is. In particular, with RAM set so that \<open>0x02FF = 0x40\<close>, \<open>0x0200 = 0x80\<close> and
  \<open>0x0300 = 0xFF\<close>, \<^verbatim>\<open>JMP ($02FF)\<close> sets the PC to \<open>0x8040\<close>.
\<close>

theorem C7_pointer_fetch_wraps_within_page:
  assumes "address AND 0x00FF = 0x00FF"
    and "CPUMemoryBus_read (bus s) address = Some lo"
    and "CPUMemoryBus_read (bus s) (address AND 0xFF00) = Some hi"
  shows "read_wrapped_page s address = Some (word_of_bytes lo hi)
    \<and> (\<forall>l h. CPUMemoryBus_read (bus s) (cpu_pc s) = Some l
            \<and> CPUMemoryBus_read (bus s) (cpu_pc s + 1) = Some h
            \<and> word_of_bytes l h = address
          \<longrightarrow> resolve_indirect s = Some (word_of_bytes lo hi, s\<lparr>cpu_pc := cpu_pc s + 2\<rparr>))
    \<and> (\<forall>v. CPUMemoryBus_read (bus s) (cpu_pc s) = Some v
            \<and> (ucast v + ucast (cpu_x s)) AND 0xFF = address
          \<longrightarrow> resolve_preindex_indirect s
               = Some (word_of_bytes lo hi, s\<lparr>cpu_pc := cpu_pc s + 1\<rparr>))
    \<and> (\<forall>v. CPUMemoryBus_read (bus s) (cpu_pc s) = Some v \<and> ucast v = address
          \<longrightarrow> resolve_postindex_indirect s
               = Some ((word_of_bytes lo hi + ucast (cpu_y s)) AND 0xFFFF,
                       s\<lparr>cpu_pc := cpu_pc s + 1,
                         page_crossed := is_page_crossed (word_of_bytes lo hi)
                            ((word_of_bytes lo hi + ucast (cpu_y s)) AND 0xFFFF)\<rparr>))
    \<and> do { s0 \<leftarrow> power_on (\<lambda>_. 0) rom_jmp_02FF;
            b1 \<leftarrow> CPUMemoryBus_write (bus s0) 0x02FF 0x40;
            b2 \<leftarrow> CPUMemoryBus_write b1 0x0200 0x80;
            b3 \<leftarrow> CPUMemoryBus_write b2 0x0300 0xFF;
            (n, s1) \<leftarrow> step (s0\<lparr>bus := b3\<rparr>);
            Some (cpu_pc s1) } = Some 0x8040"
proof -
  have w: "\<And>t. bus t = bus s \<Longrightarrow> read_wrapped_page t address = Some (word_of_bytes lo hi)"
    using assms by (simp add: read_wrapped_page_at_FF)
  have "do { s0 \<leftarrow> power_on (\<lambda>_. 0) rom_jmp_02FF;
            b1 \<leftarrow> CPUMemoryBus_write (bus s0) 0x02FF 0x40;
            b2 \<leftarrow> CPUMemoryBus_write b1 0x0200 0x80;
            b3 \<leftarrow> CPUMemoryBus_write b2 0x0300 0xFF;
            (n, s1) \<leftarrow> step (s0\<lparr>bus := b3\<rparr>);
            Some (cpu_pc s1) } = Some 0x8040"
    by (simp add: eval_defs rom_jmp_02FF_at INSTRUCTIONS_at_6C)
  then show ?thesis
    by (simp add: w resolve_indirect_def resolve_preindex_indirect_def
        resolve_postindex_indirect_def Let_def)
qed

theorem C7_pointer_fetch_wraps_within_page_witness:
  "read_wrapped_page
     ((CPU_ctor (CPUMemoryBus_ctor ((\<lambda>_. 0)(0xFF := 0x40, 0x00 := 0x80, 0x10 := 0xFF))))
        \<lparr>cpu_pc := 0x0010\<rparr>) 0x00FF = Some 0x8040
   \<and> map_option fst (resolve_indirect
     ((CPU_ctor (CPUMemoryBus_ctor ((\<lambda>_. 0)(0xFF := 0x40, 0x00 := 0x80, 0x10 := 0xFF))))
        \<lparr>cpu_pc := 0x0010\<rparr>)) = Some 0x8040
   \<and> map_option fst (resolve_preindex_indirect
     ((CPU_ctor (CPUMemoryBus_ctor ((\<lambda>_. 0)(0xFF := 0x40, 0x00 := 0x80, 0x10 := 0xFF))))
        \<lparr>cpu_pc := 0x0010\<rparr>)) = Some 0x8040
   \<and> map_option fst (resolve_postindex_indirect
     ((CPU_ctor (CPUMemoryBus_ctor ((\<lambda>_. 0)(0xFF := 0x40, 0x00 := 0x80, 0x10 := 0xFF))))
        \<lparr>cpu_pc := 0x0010\<rparr>)) = Some 0x8040"
  using C7_pointer_fetch_wraps_within_page
    [of "0x00FF"
        "(CPU_ctor (CPUMemoryBus_ctor ((\<lambda>_. 0)(0xFF := 0x40, 0x00 := 0x80, 0x10 := 0xFF))))
           \<lparr>cpu_pc := 0x0010\<rparr>"
        "0x40" "0x80"]
  by (simp add: CPU_ctor_def CPUMemoryBus_ctor_def CPUMemoryBus_read_def word_of_bytes_def)

section \<open>Cartridge construction: how it ends\<close>

lemma stream_read_exact:
  "n \<le> length xs \<Longrightarrow> stream_read n xs = (take n xs, drop n xs)"
  by (simp add: stream_read_def)

lemma take4_header: "16 \<le> length f \<Longrightarrow> take 4 (take 16 f) = take 4 f"
  by (simp add: min_def)

lemma Cartridge_ctor_too_small:
  "length f < 16 \<Longrightarrow>
   Cartridge_ctor u (Contents f) = Returns (Mailformed_rom (length f)) (u\<lparr>mapper := Mapper0_default\<rparr>)"
  by (simp add: Cartridge_ctor_def HEADER_SIZE_def)

lemma Cartridge_ctor_bad_magic:
  "16 \<le> length f \<Longrightarrow> take 4 f \<noteq> [0x4E, 0x45, 0x53, 0x1A] \<Longrightarrow> 0 \<in> set (take 4 f) \<Longrightarrow>
   Cartridge_ctor u (Contents f)
     = Returns (Invalid_header_title (takeWhile (\<lambda>b. b \<noteq> 0) (take 4 f)))
         (u\<lparr>mapper := Mapper0_default\<rparr>)"
  by (simp add: Cartridge_ctor_def HEADER_SIZE_def Let_def take4_header)

lemma Cartridge_ctor_bad_magic_no_zero:
  "16 \<le> length f \<Longrightarrow> take 4 f \<noteq> [0x4E, 0x45, 0x53, 0x1A] \<Longrightarrow> 0 \<notin> set (take 4 f) \<Longrightarrow>
   Cartridge_ctor u (Contents f) = Undefined_behaviour"
  by (simp add: Cartridge_ctor_def HEADER_SIZE_def Let_def take4_header)

text \<open>A file of sixteen bytes \<open>0x41\<close>: the title has no zero byte, the print over-reads.\<close>

lemma Cartridge_ctor_sixteen_A:
  "Cartridge_ctor u
     (Contents [0x41, 0x41, 0x41, 0x41, 0x41, 0x41, 0x41, 0x41,
                0x41, 0x41, 0x41, 0x41, 0x41, 0x41, 0x41, 0x41]) = Undefined_behaviour"
  by (simp add: Cartridge_ctor_def HEADER_SIZE_def Let_def)

lemma Cartridge_ctor_bad_sizes:
  "16 \<le> length f \<Longrightarrow> take 4 f = [0x4E, 0x45, 0x53, 0x1A] \<Longrightarrow>
   16 + 16384 * unat (f ! 4) + 8192 * unat (f ! 5) \<noteq> length f \<Longrightarrow>
   Cartridge_ctor u (Contents f) = Returns (Mailformed_rom (length f)) (u\<lparr>mapper := Mapper0_default\<rparr>)"
  by (simp add: Cartridge_ctor_def HEADER_SIZE_def Let_def take4_header)

lemma Cartridge_ctor_good:
  assumes "16 \<le> length f" and "take 4 f = [0x4E, 0x45, 0x53, 0x1A]"
    and "16 + 16384 * unat (f ! 4) + 8192 * unat (f ! 5) = length f"
    and "drop_bit 4 (f ! 6) OR (f ! 7 AND 0xF0) = 0"
  shows "\<exists>c. Cartridge_ctor u (Contents f) = Returns Empty_text c
           \<and> mapper c = \<lparr>prg_rom = take (16384 * unat (f ! 4)) (drop 16 f),
                           chr_rom = drop (16 + 16384 * unat (f ! 4)) f\<rparr>"
proof -
  have a: "16384 * unat (f ! 4) \<le> length (drop 16 f)" using assms(3) by simp
  have b: "8192 * unat (f ! 5) = length (drop (16384 * unat (f ! 4)) (drop 16 f))"
    using assms(3) by simp
  show ?thesis
    using assms a b
    by (simp add: Cartridge_ctor_def HEADER_SIZE_def Let_def take4_header stream_read_exact add.commute)
qed

lemma Cartridge_ctor_unsupported_mapper:
  assumes "16 \<le> length f" and "take 4 f = [0x4E, 0x45, 0x53, 0x1A]"
    and "16 + 16384 * unat (f ! 4) + 8192 * unat (f ! 5) = length f"
    and "drop_bit 4 (f ! 6) OR (f ! 7 AND 0xF0) \<noteq> 0"
  shows "Cartridge_ctor u (Contents f) = Terminates (Unsupported_mapper (drop_bit 4 (f ! 6) OR (f ! 7 AND 0xF0)))"
  using assms
  by (simp add: Cartridge_ctor_def HEADER_SIZE_def Let_def take4_header split: prod.splits)

text \<open>
  Claim C3, as stated, fails: no bad input is reported to the caller. For an empty file
  the constructor prints its diagnostic and returns normally, leaving an object with an
  empty mapper; for a well-formed header that names mapper 1 it ends in
  \<^verbatim>\<open>std::terminate\<close>.
\<close>

theorem C3_bad_input_not_reported_counterexample:
  "Cartridge_ctor (cartridge_of_prg []) (Contents []) = Returns (Mailformed_rom 0) (cartridge_of_prg [])
   \<and> Cartridge_ctor (cartridge_of_prg [])
        (Contents [0x4E, 0x45, 0x53, 0x1A, 0, 0, 0x10, 0, 0, 0, 0, 0, 0, 0, 0, 0])
       = Terminates (Unsupported_mapper 1)"
  by (simp add: Cartridge_ctor_def HEADER_SIZE_def cartridge_of_prg_def Mapper0_default_def
      stream_read_def Let_def)

text \<open>
  Claim C3, amended: construction from a ROM image makes the tests of the claim, in this
  order, but does not signal bad input to the caller.
  (1) When the file size is below 16, the constructor prints the ``mailformed rom''
  diagnostic and returns normally.
  (2) When the size is at least 16, the first four bytes are not \<open>N, E, S, 0x1A\<close> and
  one of them is zero, it prints the ``invalid header title'' diagnostic, followed by the
  title up to its first zero byte, and returns normally.
  (3) When the size is at least 16, the first four bytes are \<open>N, E, S, 0x1A\<close> and
  \<open>16 + prg_size + chr_size\<close> differs from the file size, it prints the ``mailformed
  rom'' diagnostic and returns normally.
  In these three cases the object is left with an empty mapper.
  (4) Construction succeeds exactly when the size is at least 16, the first four bytes
  are \<open>N, E, S, 0x1A\<close>, the sizes add up to the file size and the composed mapper number
  is zero, and then the mapper holds the PRG and CHR byte vectors of the file.
\<close>

theorem C3_constructor_outcomes:
  "(length f < 16 \<longrightarrow>
      Cartridge_ctor u (Contents f)
        = Returns (Mailformed_rom (length f)) (u\<lparr>mapper := Mapper0_default\<rparr>))
   \<and> (16 \<le> length f \<and> take 4 f \<noteq> [0x4E, 0x45, 0x53, 0x1A] \<and> 0 \<in> set (take 4 f) \<longrightarrow>
      Cartridge_ctor u (Contents f)
        = Returns (Invalid_header_title (takeWhile (\<lambda>b. b \<noteq> 0) (take 4 f)))
            (u\<lparr>mapper := Mapper0_default\<rparr>))
   \<and> (16 \<le> length f \<and> take 4 f = [0x4E, 0x45, 0x53, 0x1A]
        \<and> 16 + 16384 * unat (f ! 4) + 8192 * unat (f ! 5) \<noteq> length f \<longrightarrow>
      Cartridge_ctor u (Contents f)
        = Returns (Mailformed_rom (length f)) (u\<lparr>mapper := Mapper0_default\<rparr>))
   \<and> (16 \<le> length f \<and> take 4 f = [0x4E, 0x45, 0x53, 0x1A]
        \<and> 16 + 16384 * unat (f ! 4) + 8192 * unat (f ! 5) = length f
        \<and> drop_bit 4 (f ! 6) OR (f ! 7 AND 0xF0) = 0 \<longrightarrow>
      (\<exists>c. Cartridge_ctor u (Contents f) = Returns Empty_text c
         \<and> mapper c = \<lparr>prg_rom = take (16384 * unat (f ! 4)) (drop 16 f),
                        chr_rom = drop (16 + 16384 * unat (f ! 4)) f\<rparr>))
   \<and> ((\<exists>c. Cartridge_ctor u (Contents f) = Returns Empty_text c) \<longleftrightarrow>
        (16 \<le> length f \<and> take 4 f = [0x4E, 0x45, 0x53, 0x1A]
         \<and> 16 + 16384 * unat (f ! 4) + 8192 * unat (f ! 5) = length f
         \<and> drop_bit 4 (f ! 6) OR (f ! 7 AND 0xF0) = 0))"
proof -
  have iff: "(\<exists>c. Cartridge_ctor u (Contents f) = Returns Empty_text c) \<longleftrightarrow>
        (16 \<le> length f \<and> take 4 f = [0x4E, 0x45, 0x53, 0x1A]
         \<and> 16 + 16384 * unat (f ! 4) + 8192 * unat (f ! 5) = length f
         \<and> drop_bit 4 (f ! 6) OR (f ! 7 AND 0xF0) = 0)"
  proof
    assume ok: "\<exists>c. Cartridge_ctor u (Contents f) = Returns Empty_text c"
    show "16 \<le> length f \<and> take 4 f = [0x4E, 0x45, 0x53, 0x1A]
         \<and> 16 + 16384 * unat (f ! 4) + 8192 * unat (f ! 5) = length f
         \<and> drop_bit 4 (f ! 6) OR (f ! 7 AND 0xF0) = 0"
    proof (rule ccontr)
      assume "\<not> ?thesis"
      then consider "length f < 16"
        | "16 \<le> length f" "take 4 f \<noteq> [0x4E, 0x45, 0x53, 0x1A]" "0 \<in> set (take 4 f)"
        | "16 \<le> length f" "take 4 f \<noteq> [0x4E, 0x45, 0x53, 0x1A]" "0 \<notin> set (take 4 f)"
        | "16 \<le> length f" "take 4 f = [0x4E, 0x45, 0x53, 0x1A]"
          "16 + 16384 * unat (f ! 4) + 8192 * unat (f ! 5) \<noteq> length f"
        | "16 \<le> length f" "take 4 f = [0x4E, 0x45, 0x53, 0x1A]"
          "16 + 16384 * unat (f ! 4) + 8192 * unat (f ! 5) = length f"
          "drop_bit 4 (f ! 6) OR (f ! 7 AND 0xF0) \<noteq> 0"
        by (cases "length f < 16") auto
      then show False
      proof cases
        case 1 with ok show False by (simp add: Cartridge_ctor_too_small)
      next
        case 2 with ok show False by (simp add: Cartridge_ctor_bad_magic)
      next
        case 3 with ok show False by (simp add: Cartridge_ctor_bad_magic_no_zero)
      next
        case 4 with ok show False by (simp add: Cartridge_ctor_bad_sizes)
      next
        case 5 with ok show False by (simp add: Cartridge_ctor_unsupported_mapper)
      qed
    qed
  next
    assume "16 \<le> length f \<and> take 4 f = [0x4E, 0x45, 0x53, 0x1A]
         \<and> 16 + 16384 * unat (f ! 4) + 8192 * unat (f ! 5) = length f
         \<and> drop_bit 4 (f ! 6) OR (f ! 7 AND 0xF0) = 0"
    then show "\<exists>c. Cartridge_ctor u (Contents f) = Returns Empty_text c"
      using Cartridge_ctor_good [of f u] by blast
  qed
  show ?thesis
    using Cartridge_ctor_too_small [of f u] Cartridge_ctor_bad_magic [of f u] Cartridge_ctor_bad_sizes [of f u] Cartridge_ctor_good [of f u] iff
    by blast
qed

lemma ines_nop_image_facts:
  "length ines_nop_image = 16400" "take 4 ines_nop_image = [0x4E, 0x45, 0x53, 0x1A]"
  "ines_nop_image ! 4 = 1" "ines_nop_image ! 5 = 0" "ines_nop_image ! 6 = 0" "ines_nop_image ! 7 = 0"
  "drop 16 ines_nop_image = replicate 0x4000 0xEA"
  by (simp_all add: ines_nop_image_def ines_header_def)

theorem C3_constructor_outcomes_witness:
  "Cartridge_ctor (cartridge_of_prg []) (Contents [])
     = Returns (Mailformed_rom 0) (cartridge_of_prg [])
   \<and> Cartridge_ctor (cartridge_of_prg []) (Contents [0x4E, 0x45, 0x53, 0x00, 1, 0, 0, 0, 0, 0, 0, 0, 0, 0, 0, 0])
     = Returns (Invalid_header_title [0x4E, 0x45, 0x53]) (cartridge_of_prg [])
   \<and> Cartridge_ctor (cartridge_of_prg []) (Contents ines_header)
     = Returns (Mailformed_rom 16) (cartridge_of_prg [])
   \<and> (\<exists>c. Cartridge_ctor (cartridge_of_prg []) (Contents ines_nop_image) = Returns Empty_text c
        \<and> mapper c = \<lparr>prg_rom = replicate 0x4000 0xEA, chr_rom = []\<rparr>)"
proof -
  have u: "(cartridge_of_prg [])\<lparr>mapper := Mapper0_default\<rparr> = cartridge_of_prg []"
    by (simp add: cartridge_of_prg_def Mapper0_default_def)
  have 1: "Cartridge_ctor (cartridge_of_prg []) (Contents [])
     = Returns (Mailformed_rom 0) (cartridge_of_prg [])"
    using C3_constructor_outcomes [of "[]" "cartridge_of_prg []"] by (simp add: u)
  have 2: "Cartridge_ctor (cartridge_of_prg []) (Contents [0x4E, 0x45, 0x53, 0x00, 1, 0, 0, 0, 0, 0, 0, 0, 0, 0, 0, 0])
     = Returns (Invalid_header_title [0x4E, 0x45, 0x53]) (cartridge_of_prg [])"
    using C3_constructor_outcomes [of "[0x4E, 0x45, 0x53, 0x00, 1, 0, 0, 0, 0, 0, 0, 0, 0, 0, 0, 0]" "cartridge_of_prg []"]
    by (simp add: u)
  have 3: "Cartridge_ctor (cartridge_of_prg []) (Contents ines_header)
     = Returns (Mailformed_rom 16) (cartridge_of_prg [])"
    using C3_constructor_outcomes [of ines_header "cartridge_of_prg []"]
    by (simp add: u ines_header_def)
  have 4: "\<exists>c. Cartridge_ctor (cartridge_of_prg []) (Contents ines_nop_image) = Returns Empty_text c
        \<and> mapper c = \<lparr>prg_rom = replicate 0x4000 0xEA, chr_rom = []\<rparr>"
    using C3_constructor_outcomes [of ines_nop_image "cartridge_of_prg []"]
    by (simp add: ines_nop_image_facts)
  from 1 2 3 4 show ?thesis by blast
qed

text \<open>The power-on cartridge of the examples is what the constructor builds from such a file.\<close>

lemma Cartridge_ctor_ines_nop_image:
  "Cartridge_ctor u (Contents ines_nop_image) = Returns Empty_text (cartridge_of_prg (replicate 0x4000 0xEA))"
  by (simp add: Cartridge_ctor_def HEADER_SIZE_def Let_def take4_header ines_nop_image_facts
      stream_read_def cartridge_of_prg_def Mirroring_of_def ConsoleType_of_def TVSystem_of_def
      ines_nop_image_def ines_header_def)


end
